theory Spec2Isabelle
  imports Main
begin

section \<open>JavaScript values read by src/server/config.ts\<close>

text \<open>
  Every value the module tests is declared \<^verbatim>\<open>string\<close> in TypeScript but may be
  \<^verbatim>\<open>undefined\<close> at run time (an unset environment variable, a key that a JSON
  document does not have). Such a value is a \<^typ>\<open>string option\<close>, \<open>None\<close> for
  \<^verbatim>\<open>undefined\<close>. A string is a list of characters; the only characters the
  module looks at are ASCII ones.
\<close>

definition falsy :: "string option \<Rightarrow> bool" where
  \<comment> \<open>\<^verbatim>\<open>!v\<close>: true for \<^verbatim>\<open>undefined\<close> and for the empty string.\<close>
  "falsy v = (case v of None \<Rightarrow> True | Some s \<Rightarrow> s = [])"

definition orElse :: "string option \<Rightarrow> string \<Rightarrow> string" where
  \<comment> \<open>\<^verbatim>\<open>v || d\<close> for a string \<open>d\<close>.\<close>
  "orElse v d = (if falsy v then d else the v)"

definition toString :: "string option \<Rightarrow> string" where
  \<comment> \<open>The string coercion of \<^verbatim>\<open>'' + v\<close> and of \<^verbatim>\<open>RegExp.test(v)\<close>.\<close>
  "toString v = (case v of None \<Rightarrow> ''undefined'' | Some s \<Rightarrow> s)"

subsection \<open>The regular expression \<^verbatim>\<open>/(^|;)HostName=/i\<close>\<close>

definition canonicalize :: "char \<Rightarrow> char" where
  \<comment> \<open>ECMAScript's Canonicalize for an ignore-case match without the unicode flag:
      the character is upper-cased. Only the ASCII letters are mapped here: no
      character outside ASCII canonicalizes to an ASCII one, and the pattern is ASCII.\<close>
  "canonicalize c =
     (case map_of (zip ''abcdefghijklmnopqrstuvwxyz'' ''ABCDEFGHIJKLMNOPQRSTUVWXYZ'') c of
        None \<Rightarrow> c
      | Some u \<Rightarrow> u)"

fun matchesLiteral :: "string \<Rightarrow> string \<Rightarrow> bool" where
  "matchesLiteral [] s = True"
| "matchesLiteral (p # ps) [] = False"
| "matchesLiteral (p # ps) (c # cs) =
     (canonicalize p = canonicalize c \<and> matchesLiteral ps cs)"

definition matchesAt :: "nat \<Rightarrow> string \<Rightarrow> bool" where
  \<comment> \<open>A match that starts at index \<open>i\<close>: the alternative \<^verbatim>\<open>^\<close> holds at the start of
      the input only (no multiline flag), the alternative \<^verbatim>\<open>;\<close> consumes one
      character.\<close>
  "matchesAt i s =
     ((i = 0 \<and> matchesLiteral ''HostName='' s) \<or>
      (i < length s \<and> s ! i = CHR '';'' \<and> matchesLiteral ''HostName='' (drop (Suc i) s)))"

definition hostNameTest :: "string \<Rightarrow> bool" where
  \<comment> \<open>\<^verbatim>\<open>/(^|;)HostName=/i.test(s)\<close>: some start index matches.\<close>
  "hostNameTest s = list_ex (\<lambda>i. matchesAt i s) [0..<Suc (length s)]"

section \<open>The Config class\<close>

record auth =
  loginUrl :: string
  mongoUri :: string
  sessionSecret :: string

record config =
  IotHubConnectionString :: "string option"
  ConsoleReporting :: string
  LogLevel :: string
  Port :: "string option"
  Auth :: "auth option"

text \<open>The errors the module throws, one constructor per \<^verbatim>\<open>throw\<close> site or rejecting call.\<close>

datatype error =
    NotInitialized
  | MissingConfigFile string
  | LoadFailure string
  | InvalidConnectionString string
  | TransportError string
  | TypeError string
  | DiscoveryProtocol
  | MissingSetting string
  | ConfigServiceUnavailable string

fun message :: "error \<Rightarrow> string" where
  "message NotInitialized = ''Config has not yet been initialized''"
| "message (MissingConfigFile path) =
     ''Unable to find the user configuration: please fill out the information in '' @ path"
| "message (LoadFailure m) = m"
| "message (InvalidConnectionString path) =
     ''IOTHUB_CONNECTION_STRING was not filled out correctly; please fill out the information in '' @ path"
| "message (TransportError m) = m"
| "message (TypeError m) = m"
| "message DiscoveryProtocol = ''Config service does not provide settings:list''"
| "message (MissingSetting field) =
     ''Config service does not provide setting '' @ [CHR 0x22] @ field @ [CHR 0x22]"
| "message (ConfigServiceUnavailable description) =
     ''Could not initialize from Config Service: '' @ description"

fun describe :: "error \<Rightarrow> string" where
  \<comment> \<open>\<^verbatim>\<open>'' + err\<close>: Error.prototype.toString, the name, a colon and the message.\<close>
  "describe (TypeError m) = ''TypeError: '' @ m"
| "describe e = ''Error: '' @ message e"

section \<open>The world the module runs in\<close>

record userConfig =
  IOTHUB_CONNECTION_STRING :: "string option"
  CONSOLE_REPORTING :: "string option"
  LOG_LEVEL :: "string option"
  PORT :: "string option"

datatype fileState = Absent | Unloadable string | Loaded userConfig

record halLink =
  href :: "string option"

record dmSettings =
  logLevel :: "string option"
  consoleReporting :: "string option"

text \<open>
  A response body, \<^verbatim>\<open>T & Hal.Resource\<close>: the link collection of a HAL resource and
  the fields of \<^verbatim>\<open>ConfigSettings\<close>, each of which a body may lack.
\<close>

record resource =
  links :: "(string \<rightharpoonup> halLink) option"
  iotHubConnStr :: "string option"
  settingsLoginUrl :: "string option"
  settingsMongoUri :: "string option"
  settingsSessionSecret :: "string option"
  deviceManagement :: "dmSettings option"

datatype response = Rejected string | Resolved "resource option"

text \<open>
  The effects of the module, in the order in which they happen: a GET of a URI
  (\<^verbatim>\<open>request.get\<close>), a line on the console (\<^verbatim>\<open>console.error\<close>), a timer of so many
  milliseconds (\<^verbatim>\<open>setTimeout\<close>).
\<close>

datatype event = Fetched string | Warned string | Slept nat

text \<open>
  The world holds what the module reads and what it changes: the three environment
  variables; the path \<^verbatim>\<open>path.join(__dirname, '../../user-config.json')\<close> and what is
  at that path (nothing, a file that \<^verbatim>\<open>require\<close> cannot load, or a document); the
  service, as the answer to a GET of a URI at a moment; the effects so far; the Config
  objects allocated so far, a reference being an index into that list; and the static
  field \<^verbatim>\<open>Config.instance\<close>, \<open>None\<close> for \<^verbatim>\<open>null\<close>.
\<close>

record world =
  envCONFIG_URL :: "string option"
  envPORT :: "string option"
  envIOTHUB_CONNECTION_STRING :: "string option"
  userConfigFile :: string
  userConfigDocument :: fileState
  net :: "nat \<Rightarrow> string \<Rightarrow> response"
  events :: "event list"
  heap :: "config list"
  configInstance :: "nat option"

section \<open>The operations of Config\<close>

definition publish :: "config \<Rightarrow> world \<Rightarrow> (error + nat) \<times> world" where
  \<comment> \<open>\<^verbatim>\<open>return Config.instance = new Config(...)\<close>: the new object gets a fresh
      reference, the static field is set to it, and the reference is returned.\<close>
  "publish c w =
     (let r = length (heap w)
      in (Inr r, w\<lparr>heap := heap w @ [c], configInstance := Some r\<rparr>))"

definition get :: "world \<Rightarrow> (error + nat) \<times> world" where
  "get w =
     (case configInstance w of
        None \<Rightarrow> (Inl NotInitialized, w)
      | Some r \<Rightarrow> (Inr r, w))"

definition initializeFromFile :: "world \<Rightarrow> (error + nat) \<times> world" where
  "initializeFromFile w =
     (case userConfigDocument w of
        Absent \<Rightarrow> (Inl (MissingConfigFile (userConfigFile w)), w)
      | Unloadable m \<Rightarrow> (Inl (LoadFailure m), w)
      | Loaded userConfig \<Rightarrow>
          if \<not> hostNameTest (toString (IOTHUB_CONNECTION_STRING userConfig))
          then (Inl (InvalidConnectionString (userConfigFile w)), w)
          else publish
            \<lparr>IotHubConnectionString = IOTHUB_CONNECTION_STRING userConfig,
             ConsoleReporting = orElse (CONSOLE_REPORTING userConfig) ''both'',
             LogLevel = orElse (LOG_LEVEL userConfig) ''trace'',
             Port = Some (orElse (PORT userConfig) ''3003''),
             Auth = None\<rparr> w)"

definition initializeFromEnvironment :: "world \<Rightarrow> (error + nat) \<times> world" where
  "initializeFromEnvironment w =
     publish
       \<lparr>IotHubConnectionString = envIOTHUB_CONNECTION_STRING w,
        ConsoleReporting = ''both'',
        LogLevel = ''trace'',
        Port = Some (orElse (envPORT w) ''3003''),
        Auth = None\<rparr> w"

subsection \<open>initializeFromConfigService\<close>

definition getHal :: "string \<Rightarrow> world \<Rightarrow> (error + resource option) \<times> world" where
  \<comment> \<open>One GET. What the service answers may depend on the moment of the request, which
      is the number of effects the module has had so far.\<close>
  "getHal uri w =
     ((case net w (length (events w)) uri of
         Rejected err \<Rightarrow> Inl (TransportError err)
       | Resolved body \<Rightarrow> Inr body),
      w\<lparr>events := events w @ [Fetched uri]\<rparr>)"

definition settingsLinkOf :: "resource option \<Rightarrow> error + halLink" where
  \<comment> \<open>Lines 79 and 80: \<^verbatim>\<open>discovery._links['settings:list']\<close> and its test. Reading a
      property of \<^verbatim>\<open>undefined\<close> throws a TypeError.\<close>
  "settingsLinkOf discovery =
     (case discovery of
        None \<Rightarrow> Inl (TypeError ''Cannot read property '_links' of undefined'')
      | Some d \<Rightarrow>
          (case links d of
             None \<Rightarrow> Inl (TypeError ''Cannot read property 'settings:list' of undefined'')
           | Some ls \<Rightarrow>
               (case ls ''settings:list'' of
                  None \<Rightarrow> Inl DiscoveryProtocol
                | Some settingsLink \<Rightarrow> Inr settingsLink)))"

definition dmIncomplete :: "dmSettings option \<Rightarrow> bool" where
  \<comment> \<open>\<^verbatim>\<open>!dmSettings || !dmSettings.consoleReporting || !dmSettings.logLevel\<close>\<close>
  "dmIncomplete dm =
     (case dm of
        None \<Rightarrow> True
      | Some dmSettings \<Rightarrow> falsy (consoleReporting dmSettings) \<or> falsy (logLevel dmSettings))"

definition validateSettings :: "resource option \<Rightarrow> string option \<Rightarrow> error + config" where
  \<comment> \<open>Lines 83 to 103: the checks on the settings resource, in the order of the source,
      and the Config built when all of them pass.\<close>
  "validateSettings body port =
     (case body of
        None \<Rightarrow> Inl (TypeError ''Cannot read property 'iotHubConnStr' of undefined'')
      | Some configSettings \<Rightarrow>
          if falsy (iotHubConnStr configSettings) then Inl (MissingSetting ''iotHubConnStr'')
          else if falsy (settingsLoginUrl configSettings) then Inl (MissingSetting ''loginUrl'')
          else if falsy (settingsMongoUri configSettings) then Inl (MissingSetting ''mongoUri'')
          else if falsy (settingsSessionSecret configSettings)
            then Inl (MissingSetting ''sessionSecret'')
          else if dmIncomplete (deviceManagement configSettings)
            then Inl (MissingSetting ''device-management'')
          else Inr
            \<lparr>IotHubConnectionString = iotHubConnStr configSettings,
             ConsoleReporting = the (consoleReporting (the (deviceManagement configSettings))),
             LogLevel = the (logLevel (the (deviceManagement configSettings))),
             Port = port,
             Auth = Some
               \<lparr>loginUrl = the (settingsLoginUrl configSettings),
                mongoUri = the (settingsMongoUri configSettings),
                sessionSecret = the (settingsSessionSecret configSettings)\<rparr>\<rparr>)"

definition attempt :: "string \<Rightarrow> string option \<Rightarrow> world \<Rightarrow> (error + config) \<times> world" where
  \<comment> \<open>The \<^verbatim>\<open>try\<close> block up to the construction of the Config: two fetches, the second
      only after the first gave a link.\<close>
  "attempt configUrl port w =
     (case getHal (configUrl @ ''/api/discovery'') w of
        (Inl err, w1) \<Rightarrow> (Inl err, w1)
      | (Inr discovery, w1) \<Rightarrow>
          (case settingsLinkOf discovery of
             Inl err \<Rightarrow> (Inl err, w1)
           | Inr settingsLink \<Rightarrow>
               (case getHal (configUrl @ toString (href settingsLink)) w1 of
                  (Inl err, w2) \<Rightarrow> (Inl err, w2)
                | (Inr configSettings, w2) \<Rightarrow> (validateSettings configSettings port, w2))))"

definition delayBeforeRetrySeconds :: nat where
  "delayBeforeRetrySeconds = 5"

definition afterFailure :: "error \<Rightarrow> world \<Rightarrow> world" where
  \<comment> \<open>The \<^verbatim>\<open>else\<close> branch of the \<^verbatim>\<open>catch\<close>: the warning on the console, then the timer.\<close>
  "afterFailure err w =
     w\<lparr>events := events w @
        [Warned (''WARNING: Could not initialize from Config Service: '' @ describe err
                 @ ''; Retrying...''),
         Slept (delayBeforeRetrySeconds * 1000)]\<rparr>"

partial_function (option) retryLoop ::
  "int \<Rightarrow> string \<Rightarrow> string option \<Rightarrow> world \<Rightarrow> ((error + nat) \<times> world) option" where
  "retryLoop numRetries configUrl port w =
     (case attempt configUrl port w of
        (Inr c, w1) \<Rightarrow> Some (publish c w1)
      | (Inl err, w1) \<Rightarrow>
          if numRetries - 1 = 0
          then Some (Inl (ConfigServiceUnavailable (describe err)), w1)
          else retryLoop (numRetries - 1) configUrl port (afterFailure err w1))"

declare retryLoop.simps [code]

definition initializeFromConfigService ::
  "string \<Rightarrow> string option \<Rightarrow> world \<Rightarrow> ((error + nat) \<times> world) option" where
  "initializeFromConfigService configUrl port w = retryLoop 60 configUrl port w"

subsection \<open>initialize\<close>

datatype strategy = FromFile | FromEnvironment | FromConfigService

definition selectStrategy :: "string option \<Rightarrow> string option \<Rightarrow> strategy" where
  \<comment> \<open>The conditions of the \<^verbatim>\<open>if\<close> chain of \<^verbatim>\<open>initialize\<close>.\<close>
  "selectStrategy configUrl port =
     (if falsy configUrl \<and> falsy port then FromFile
      else if falsy configUrl then FromEnvironment
      else FromConfigService)"

definition initialize :: "world \<Rightarrow> ((error + nat) \<times> world) option" where
  "initialize w =
     (let configUrl = envCONFIG_URL w; port = envPORT w
      in case selectStrategy configUrl port of
           FromFile \<Rightarrow> Some (initializeFromFile w)
         | FromEnvironment \<Rightarrow> Some (initializeFromEnvironment w)
         | FromConfigService \<Rightarrow> initializeFromConfigService (the configUrl) port w)"

section \<open>Notions used to state the properties\<close>

definition published :: "world \<Rightarrow> config option" where
  \<comment> \<open>The object the static field refers to, if it refers to one.\<close>
  "published w =
     (case configInstance w of
        None \<Rightarrow> None
      | Some r \<Rightarrow> if r < length (heap w) then Some (heap w ! r) else None)"

definition isSlept :: "event \<Rightarrow> bool" where
  "isSlept e = (case e of Slept ms \<Rightarrow> True | _ \<Rightarrow> False)"

definition sleeps :: "world \<Rightarrow> event list" where
  \<comment> \<open>The timers the module has waited for, oldest first.\<close>
  "sleeps w = filter isSlept (events w)"

definition nextAttempt :: "string \<Rightarrow> string option \<Rightarrow> world \<Rightarrow> world" where
  \<comment> \<open>The world one failed attempt later: after the warning and the timer.\<close>
  "nextAttempt configUrl port w =
     (case attempt configUrl port w of
        (Inl err, w1) \<Rightarrow> afterFailure err w1
      | (Inr c, w1) \<Rightarrow> w1)"

definition attemptStart :: "nat \<Rightarrow> string \<Rightarrow> string option \<Rightarrow> world \<Rightarrow> world" where
  \<comment> \<open>The world in which attempt number \<open>k + 1\<close> starts when the \<open>k\<close> before it failed.\<close>
  "attemptStart k configUrl port w = (nextAttempt configUrl port ^^ k) w"

definition lowerCase :: "char \<Rightarrow> char" where
  \<comment> \<open>Used by the specification's reading of the pattern below: the lower-case form
      of an ASCII letter, any other character as it is.\<close>
  "lowerCase c =
     (case map_of (zip ''ABCDEFGHIJKLMNOPQRSTUVWXYZ'' ''abcdefghijklmnopqrstuvwxyz'') c of
        None \<Rightarrow> c
      | Some l \<Rightarrow> l)"

definition hostNamePatternSpec :: "string \<Rightarrow> bool" where
  \<comment> \<open>The pattern in the specification's words, to be compared with \<open>hostNameTest\<close>:
      \<^verbatim>\<open>HostName=\<close>, in any casing, at the start of the string or immediately
      after a semicolon.\<close>
  "hostNamePatternSpec s =
     (\<exists>before key rest.
        s = before @ key @ rest \<and> map lowerCase key = ''hostname='' \<and>
        (before = [] \<or> (\<exists>b. before = b @ '';'')))"

definition absentOrEmpty :: "string option \<Rightarrow> bool" where
  \<comment> \<open>In the specification's words: a field that is absent or empty.\<close>
  "absentOrEmpty v = (v = None \<or> v = Some [])"

definition missingSettingsSpec :: "resource \<Rightarrow> string list" where
  \<comment> \<open>In the specification's words, to be compared with \<open>validateSettings\<close>: the
      names of the required settings that are absent or empty, in the order in which
      the specification lists them; the nested object counts as missing when it is
      absent or incomplete.\<close>
  "missingSettingsSpec s =
     (if absentOrEmpty (iotHubConnStr s) then [''iotHubConnStr''] else []) @
     (if absentOrEmpty (settingsLoginUrl s) then [''loginUrl''] else []) @
     (if absentOrEmpty (settingsMongoUri s) then [''mongoUri''] else []) @
     (if absentOrEmpty (settingsSessionSecret s) then [''sessionSecret''] else []) @
     (case deviceManagement s of
        None \<Rightarrow> [''device-management'']
      | Some dm \<Rightarrow>
          if absentOrEmpty (consoleReporting dm) \<or> absentOrEmpty (logLevel dm)
          then [''device-management''] else [])"

section \<open>Example worlds\<close>

definition exampleWorld :: world where
  \<comment> \<open>A freshly loaded module: nothing in the environment, no file, a service that
      refuses every connection.\<close>
  "exampleWorld =
     \<lparr>envCONFIG_URL = None, envPORT = None, envIOTHUB_CONNECTION_STRING = None,
      userConfigFile = ''/app/user-config.json'', userConfigDocument = Absent,
      net = (\<lambda>t uri. Rejected ''ECONNREFUSED''),
      events = [], heap = [], configInstance = None\<rparr>"

definition exampleDocument :: userConfig where
  \<comment> \<open>A user-config.json with every field filled in.\<close>
  "exampleDocument =
     \<lparr>IOTHUB_CONNECTION_STRING = Some ''HostName=hub.example.net;SharedAccessKey=k'',
      CONSOLE_REPORTING = Some ''server'', LOG_LEVEL = Some ''info'', PORT = Some ''8080''\<rparr>"

definition publishedWorld :: world where
  \<comment> \<open>The example world after a successful resolution from the environment.\<close>
  "publishedWorld = snd (initializeFromEnvironment exampleWorld)"

definition discoveryWithoutLink :: resource where
  \<comment> \<open>A discovery resource whose link collection has no
      \<^verbatim>\<open>settings:list\<close>.\<close>
  "discoveryWithoutLink =
     \<lparr>links = Some Map.empty, iotHubConnStr = None, settingsLoginUrl = None,
      settingsMongoUri = None, settingsSessionSecret = None, deviceManagement = None\<rparr>"

definition serviceWithoutLink :: "nat \<Rightarrow> string \<Rightarrow> response" where
  \<comment> \<open>A service that answers every request with that resource.\<close>
  "serviceWithoutLink t uri = Resolved (Some discoveryWithoutLink)"

definition exampleDiscovery :: resource where
  \<comment> \<open>A discovery resource with the link to the settings.\<close>
  "exampleDiscovery =
     \<lparr>links = Some [''settings:list'' \<mapsto> \<lparr>href = Some ''/api/settings''\<rparr>],
      iotHubConnStr = None, settingsLoginUrl = None,
      settingsMongoUri = None, settingsSessionSecret = None, deviceManagement = None\<rparr>"

definition exampleSettings :: resource where
  \<comment> \<open>A settings resource with every required field.\<close>
  "exampleSettings =
     \<lparr>links = None,
      iotHubConnStr = Some ''HostName=hub.example.net;SharedAccessKey=k'',
      settingsLoginUrl = Some ''https://login.example.net'',
      settingsMongoUri = Some ''mongodb://db.example.net'',
      settingsSessionSecret = Some ''s3cret'',
      deviceManagement = Some \<lparr>logLevel = Some ''info'', consoleReporting = Some ''server''\<rparr>\<rparr>"

definition serviceReady :: "nat \<Rightarrow> string \<Rightarrow> response" where
  \<comment> \<open>A service that answers both requests well.\<close>
  "serviceReady t uri =
     (if uri = ''http://config/api/discovery'' then Resolved (Some exampleDiscovery)
      else if uri = ''http://config/api/settings'' then Resolved (Some exampleSettings)
      else Rejected ''ENOTFOUND'')"

definition serviceReadyThirdTime :: "nat \<Rightarrow> string \<Rightarrow> response" where
  \<comment> \<open>A service that refuses the first two attempts (the requests before the sixth
      effect) and answers well from then on.\<close>
  "serviceReadyThirdTime t uri = (if t < 6 then Rejected ''ECONNREFUSED'' else serviceReady t uri)"

definition serviceWithoutSecret :: "nat \<Rightarrow> string \<Rightarrow> response" where
  \<comment> \<open>A service whose settings resource lacks
      \<^verbatim>\<open>sessionSecret\<close>.\<close>
  "serviceWithoutSecret t uri =
     (if uri = ''http://config/api/discovery'' then Resolved (Some exampleDiscovery)
      else Resolved (Some (exampleSettings\<lparr>settingsSessionSecret := None\<rparr>)))"

definition exampleConfig :: config where
  \<comment> \<open>The Config that the example settings and the port 80 give.\<close>
  "exampleConfig =
     \<lparr>IotHubConnectionString = Some ''HostName=hub.example.net;SharedAccessKey=k'',
      ConsoleReporting = ''server'', LogLevel = ''info'', Port = Some ''80'',
      Auth = Some \<lparr>loginUrl = ''https://login.example.net'',
                   mongoUri = ''mongodb://db.example.net'',
                   sessionSecret = ''s3cret''\<rparr>\<rparr>"

definition emptyBody :: resource where
  \<comment> \<open>The body \<^verbatim>\<open>{}\<close>: a JSON object with no link collection and no settings.\<close>
  "emptyBody =
     \<lparr>links = None, iotHubConnStr = None, settingsLoginUrl = None,
      settingsMongoUri = None, settingsSessionSecret = None, deviceManagement = None\<rparr>"

definition serviceWithEmptyBody :: "nat \<Rightarrow> string \<Rightarrow> response" where
  \<comment> \<open>A service that answers every request with that body.\<close>
  "serviceWithEmptyBody t uri = Resolved (Some emptyBody)"

section \<open>Basic facts\<close>

lemma falsy_simps [simp]: "falsy None" "falsy (Some s) = (s = [])"
  by (simp_all add: falsy_def)

lemma publish_simps:
  "fst (publish c w) = Inr (length (heap w))"
  "configInstance (snd (publish c w)) = Some (length (heap w))"
  "heap (snd (publish c w)) = heap w @ [c]"
  "published (snd (publish c w)) = Some c"
  by (simp_all add: publish_def published_def Let_def)

lemma orElse_simps:
  "orElse None d = d" "orElse (Some s) d = (if s = [] then d else s)"
  by (simp_all add: orElse_def)

lemma initializeFromFile_Loaded:
  "userConfigDocument w = Loaded d \<Longrightarrow> hostNameTest (toString (IOTHUB_CONNECTION_STRING d)) \<Longrightarrow>
   initializeFromFile w =
     publish \<lparr>IotHubConnectionString = IOTHUB_CONNECTION_STRING d,
              ConsoleReporting = orElse (CONSOLE_REPORTING d) ''both'',
              LogLevel = orElse (LOG_LEVEL d) ''trace'',
              Port = Some (orElse (PORT d) ''3003''),
              Auth = None\<rparr> w"
  by (simp add: initializeFromFile_def)

lemma exampleDocument_valid: "hostNameTest (toString (IOTHUB_CONNECTION_STRING exampleDocument))"
  by code_simp

subsection \<open>One attempt and the retry loop\<close>

lemma getHal_world: "snd (getHal uri w) = w\<lparr>events := events w @ [Fetched uri]\<rparr>"
  by (simp add: getHal_def)

lemma attempt_world:
  "\<exists>evs. snd (attempt u p w) = w\<lparr>events := events w @ evs\<rparr> \<and> filter isSlept evs = []"
  by (auto simp: attempt_def getHal_def isSlept_def split: response.splits sum.splits prod.splits)

lemma attempt_heap [simp]: "heap (snd (attempt u p w)) = heap w"
  using attempt_world [of u p w] by auto

lemma attempt_instance [simp]: "configInstance (snd (attempt u p w)) = configInstance w"
  using attempt_world [of u p w] by auto

lemma attempt_net [simp]: "net (snd (attempt u p w)) = net w"
  using attempt_world [of u p w] by auto

lemma attempt_sleeps [simp]: "sleeps (snd (attempt u p w)) = sleeps w"
  using attempt_world [of u p w] by (auto simp: sleeps_def)

lemma afterFailure_simps [simp]:
  "heap (afterFailure e w) = heap w"
  "configInstance (afterFailure e w) = configInstance w"
  "net (afterFailure e w) = net w"
  "sleeps (afterFailure e w) = sleeps w @ [Slept 5000]"
  by (simp_all add: afterFailure_def sleeps_def isSlept_def delayBeforeRetrySeconds_def)

lemma retryLoop_failed:
  "attempt u p w = (Inl e, w1) \<Longrightarrow>
   retryLoop n u p w =
     (if n - 1 = 0 then Some (Inl (ConfigServiceUnavailable (describe e)), w1)
      else retryLoop (n - 1) u p (afterFailure e w1))"
  by (subst retryLoop.simps) simp

lemma retryLoop_succeeded:
  "attempt u p w = (Inr c, w1) \<Longrightarrow> retryLoop n u p w = Some (publish c w1)"
  by (subst retryLoop.simps) simp

lemma nextAttempt_failed: "attempt u p w = (Inl e, w1) \<Longrightarrow> nextAttempt u p w = afterFailure e w1"
  by (simp add: nextAttempt_def)

lemma attemptStart_0 [simp]: "attemptStart 0 u p w = w"
  by (simp add: attemptStart_def)

lemma attemptStart_Suc: "attemptStart (Suc k) u p w = nextAttempt u p (attemptStart k u p w)"
  by (simp add: attemptStart_def)

lemma attemptStart_Suc_front: "attemptStart (Suc k) u p w = attemptStart k u p (nextAttempt u p w)"
  by (simp add: attemptStart_def funpow_swap1)

lemma retryLoop_returns: "\<exists>res. retryLoop (int (Suc n)) u p w = Some res"
proof (induction n arbitrary: w)
  case 0
  obtain r w1 where a: "attempt u p w = (r, w1)" by (cases "attempt u p w")
  then show ?case
    by (cases r) (simp_all add: retryLoop_failed retryLoop_succeeded)
next
  case (Suc n)
  obtain r w1 where a: "attempt u p w = (r, w1)" by (cases "attempt u p w")
  show ?case
  proof (cases r)
    case (Inl e)
    have "retryLoop (int (Suc (Suc n))) u p w = retryLoop (int (Suc n)) u p (afterFailure e w1)"
      using a Inl by (simp add: retryLoop_failed)
    then show ?thesis using Suc.IH by simp
  next
    case (Inr c)
    then show ?thesis using a by (simp add: retryLoop_succeeded)
  qed
qed

lemma retryLoop_all_fail:
  "\<forall>k\<le>n. isl (fst (attempt u p (attemptStart k u p w))) \<Longrightarrow>
   retryLoop (int (Suc n)) u p w =
     Some (Inl (ConfigServiceUnavailable
                 (describe (projl (fst (attempt u p (attemptStart n u p w)))))),
           snd (attempt u p (attemptStart n u p w)))"
proof (induction n arbitrary: w)
  case 0
  then have "isl (fst (attempt u p w))" by simp
  then obtain e w1 where a: "attempt u p w = (Inl e, w1)"
    by (cases "attempt u p w"; cases "fst (attempt u p w)") auto
  then show ?case by (simp add: retryLoop_failed)
next
  case (Suc n)
  from Suc.prems have "isl (fst (attempt u p (attemptStart 0 u p w)))" by blast
  then have "isl (fst (attempt u p w))" by simp
  then obtain e w1 where a: "attempt u p w = (Inl e, w1)"
    by (cases "attempt u p w"; cases "fst (attempt u p w)") auto
  have nx: "nextAttempt u p w = afterFailure e w1" using a by (rule nextAttempt_failed)
  have "\<forall>k\<le>n. isl (fst (attempt u p (attemptStart k u p (afterFailure e w1))))"
  proof (intro allI impI)
    fix k assume "k \<le> n"
    then have "isl (fst (attempt u p (attemptStart (Suc k) u p w)))" using Suc.prems by simp
    then show "isl (fst (attempt u p (attemptStart k u p (afterFailure e w1))))"
      by (simp add: attemptStart_Suc_front nx)
  qed
  from Suc.IH [OF this]
  have "retryLoop (int (Suc n)) u p (afterFailure e w1) =
     Some (Inl (ConfigServiceUnavailable
                 (describe (projl (fst (attempt u p (attemptStart (Suc n) u p w)))))),
           snd (attempt u p (attemptStart (Suc n) u p w)))"
    by (simp add: attemptStart_Suc_front nx)
  moreover have "retryLoop (int (Suc (Suc n))) u p w = retryLoop (int (Suc n)) u p (afterFailure e w1)"
    using a by (simp add: retryLoop_failed)
  ultimately show ?case by simp
qed

lemma sleeps_attemptStart:
  "\<forall>j<k. isl (fst (attempt u p (attemptStart j u p w))) \<Longrightarrow>
   sleeps (attemptStart k u p w) = sleeps w @ replicate k (Slept 5000)"
proof (induction k)
  case 0
  show ?case by simp
next
  case (Suc k)
  then have ih: "sleeps (attemptStart k u p w) = sleeps w @ replicate k (Slept 5000)" by simp
  from Suc.prems have "isl (fst (attempt u p (attemptStart k u p w)))" by simp
  then obtain e w1 where a: "attempt u p (attemptStart k u p w) = (Inl e, w1)"
    by (cases "attempt u p (attemptStart k u p w)"; cases "fst (attempt u p (attemptStart k u p w))") auto
  have "sleeps w1 = sleeps (attemptStart k u p w)"
    using attempt_sleeps [of u p "attemptStart k u p w"] a by simp
  then show ?case
    using a ih by (simp add: attemptStart_Suc nextAttempt_failed replicate_append_same)
qed

lemma retryLoop_failure:
  "retryLoop (int (Suc n)) u p w = Some (Inl e, w') \<Longrightarrow>
   configInstance w' = configInstance w \<and> heap w' = heap w \<and> (\<exists>d. e = ConfigServiceUnavailable d)"
proof (induction n arbitrary: w)
  case 0
  obtain r w1 where a: "attempt u p w = (r, w1)" by (cases "attempt u p w")
  have f: "configInstance w1 = configInstance w" "heap w1 = heap w"
    using attempt_instance [of u p w] attempt_heap [of u p w] a by simp_all
  show ?case using 0 a f
    by (cases r) (auto simp: retryLoop_failed retryLoop_succeeded publish_def Let_def)
next
  case (Suc n)
  obtain r w1 where a: "attempt u p w = (r, w1)" by (cases "attempt u p w")
  have f: "configInstance w1 = configInstance w" "heap w1 = heap w"
    using attempt_instance [of u p w] attempt_heap [of u p w] a by simp_all
  show ?case
  proof (cases r)
    case (Inl e0)
    have "retryLoop (int (Suc (Suc n))) u p w = retryLoop (int (Suc n)) u p (afterFailure e0 w1)"
      using a Inl by (simp add: retryLoop_failed)
    with Suc.prems have "retryLoop (int (Suc n)) u p (afterFailure e0 w1) = Some (Inl e, w')" by simp
    from Suc.IH [OF this] show ?thesis using f by simp
  next
    case (Inr c)
    then show ?thesis using Suc.prems a by (simp add: retryLoop_succeeded publish_def Let_def)
  qed
qed

lemma retryLoop_success:
  "retryLoop (int (Suc n)) u p w = Some (Inr r, w') \<Longrightarrow>
   \<exists>w0 c w1. attempt u p w0 = (Inr c, w1) \<and> net w0 = net w \<and> heap w1 = heap w \<and>
     publish c w1 = (Inr r, w')"
proof (induction n arbitrary: w)
  case 0
  obtain x w1 where a: "attempt u p w = (x, w1)" by (cases "attempt u p w")
  have f: "heap w1 = heap w" using attempt_heap [of u p w] a by simp
  show ?case using 0 a f
    by (cases x) (auto simp: retryLoop_failed retryLoop_succeeded)
next
  case (Suc n)
  obtain x w1 where a: "attempt u p w = (x, w1)" by (cases "attempt u p w")
  have f: "heap w1 = heap w" "net w1 = net w"
    using attempt_heap [of u p w] attempt_net [of u p w] a by simp_all
  show ?case
  proof (cases x)
    case (Inl e0)
    have "retryLoop (int (Suc (Suc n))) u p w = retryLoop (int (Suc n)) u p (afterFailure e0 w1)"
      using a Inl by (simp add: retryLoop_failed)
    with Suc.prems have "retryLoop (int (Suc n)) u p (afterFailure e0 w1) = Some (Inr r, w')" by simp
    from Suc.IH [OF this] show ?thesis using f by simp
  next
    case (Inr c)
    then show ?thesis using Suc.prems a f by (auto simp: retryLoop_succeeded)
  qed
qed

lemma nextAttempt_net [simp]: "net (nextAttempt u p w) = net w"
proof -
  obtain r w1 where a: "attempt u p w = (r, w1)" by (cases "attempt u p w")
  have "net w1 = net w" using attempt_net [of u p w] a by simp
  then show ?thesis using a by (cases r) (simp_all add: nextAttempt_def)
qed

lemma attemptStart_net [simp]: "net (attemptStart k u p w) = net w"
  by (induction k) (simp_all add: attemptStart_Suc)

lemma attempt_without_link:
  "net w = serviceWithoutLink \<Longrightarrow>
   attempt u p w = (Inl DiscoveryProtocol, w\<lparr>events := events w @ [Fetched (u @ ''/api/discovery'')]\<rparr>)"
  by (simp add: attempt_def getHal_def serviceWithoutLink_def settingsLinkOf_def discoveryWithoutLink_def)

lemma attempt_rejected:
  "net w = (\<lambda>t uri. Rejected m) \<Longrightarrow>
   attempt u p w = (Inl (TransportError m), w\<lparr>events := events w @ [Fetched (u @ ''/api/discovery'')]\<rparr>)"
  by (simp add: attempt_def getHal_def)

lemma events_without_link:
  "net w = serviceWithoutLink \<Longrightarrow>
   events (attemptStart k u p w) =
     events w @ concat (replicate k
       [Fetched (u @ ''/api/discovery''),
        Warned (''WARNING: Could not initialize from Config Service: '' @ describe DiscoveryProtocol
                 @ ''; Retrying...''),
        Slept 5000])"
proof (induction k)
  case 0
  show ?case by simp
next
  case (Suc k)
  have n: "net (attemptStart k u p w) = serviceWithoutLink" using Suc.prems by simp
  have "concat (replicate (Suc k) [a, b, c]) = concat (replicate k [a, b, c]) @ [a, b, c]" for a b c :: event
    by (metis concat_append concat.simps(2) concat.simps(1) replicate_append_same replicate_Suc append_Nil2)
  then show ?case
    using Suc.IH [OF Suc.prems] attempt_without_link [OF n, of u p]
    by (simp add: attemptStart_Suc nextAttempt_def afterFailure_def delayBeforeRetrySeconds_def)
qed

lemma get_world [simp]: "snd (get w) = w"
  by (simp add: get_def split: option.splits)

lemma get_funpow: "((\<lambda>x. snd (get x)) ^^ n) w = w"
  by (induction n) simp_all

lemma publish_get: "publish c w = (Inr r, w') \<Longrightarrow> get w' = (Inr r, w')"
  by (auto simp: publish_def get_def Let_def)

lemma publish_published: "publish c w = (Inr r, w') \<Longrightarrow> configInstance w' = Some r \<and> published w' = Some c"
  by (auto simp: publish_def published_def Let_def)

lemma initializeFromFile_cases:
  "initializeFromFile w = (Inl e, w') \<Longrightarrow> w' = w"
  "initializeFromFile w = (Inr r, w') \<Longrightarrow>
     \<exists>d. userConfigDocument w = Loaded d \<and> hostNameTest (toString (IOTHUB_CONNECTION_STRING d)) \<and>
       publish \<lparr>IotHubConnectionString = IOTHUB_CONNECTION_STRING d,
              ConsoleReporting = orElse (CONSOLE_REPORTING d) ''both'',
              LogLevel = orElse (LOG_LEVEL d) ''trace'',
              Port = Some (orElse (PORT d) ''3003''),
              Auth = None\<rparr> w = (Inr r, w')"
  by (auto simp: initializeFromFile_def publish_def Let_def split: fileState.splits if_splits)

lemma initializeFromConfigService_failure:
  "initializeFromConfigService u p w = Some (Inl e, w') \<Longrightarrow>
   configInstance w' = configInstance w \<and> heap w' = heap w \<and> (\<exists>d. e = ConfigServiceUnavailable d)"
  using retryLoop_failure [of 59 u p w e w'] by (simp add: initializeFromConfigService_def)

lemma initializeFromConfigService_success:
  "initializeFromConfigService u p w = Some (Inr r, w') \<Longrightarrow>
   \<exists>w0 c w1. attempt u p w0 = (Inr c, w1) \<and> net w0 = net w \<and> heap w1 = heap w \<and>
     publish c w1 = (Inr r, w')"
  using retryLoop_success [of 59 u p w r w'] by (simp add: initializeFromConfigService_def)

lemma initializeFromConfigService_returns:
  "\<exists>res. initializeFromConfigService u p w = Some res"
  using retryLoop_returns [of 59 u p w] by (simp add: initializeFromConfigService_def)

lemma published_unchanged:
  "configInstance w' = configInstance w \<Longrightarrow> heap w' = heap w \<Longrightarrow> published w' = published w"
  by (simp add: published_def split: option.splits)

lemma initialize_cases:
  "initialize w = Some (initializeFromFile w) \<or>
   initialize w = Some (initializeFromEnvironment w) \<or>
   (\<exists>u. initialize w = initializeFromConfigService u (envPORT w) w)"
  by (auto simp: initialize_def Let_def split: strategy.splits)

lemma attempt_ready:
  "net w = serviceReady \<Longrightarrow> fst (attempt ''http://config'' (Some ''80'') w) = Inr exampleConfig"
  by (simp add: attempt_def getHal_def serviceReady_def settingsLinkOf_def exampleDiscovery_def
      toString_def validateSettings_def exampleSettings_def dmIncomplete_def exampleConfig_def)

lemma run_ready:
  "\<exists>w'. initializeFromConfigService ''http://config'' (Some ''80'') (exampleWorld\<lparr>net := serviceReady\<rparr>)
     = Some (Inr 0, w') \<and> published w' = Some exampleConfig"
proof -
  let ?w = "exampleWorld\<lparr>net := serviceReady\<rparr>"
  obtain w1 where a: "attempt ''http://config'' (Some ''80'') ?w = (Inr exampleConfig, w1)"
    using attempt_ready [of ?w] by (cases "attempt ''http://config'' (Some ''80'') ?w") simp
  have "heap w1 = heap ?w" using attempt_heap [of "''http://config''" "Some ''80''" ?w] a
    by simp
  then have h: "heap w1 = []" by (simp add: exampleWorld_def)
  have "initializeFromConfigService ''http://config'' (Some ''80'') ?w = Some (publish exampleConfig w1)"
    using a by (simp add: initializeFromConfigService_def retryLoop_succeeded)
  moreover have "fst (publish exampleConfig w1) = Inr 0" using h by (simp add: publish_simps)
  ultimately show ?thesis
    by (intro exI [of _ "snd (publish exampleConfig w1)"]) (simp add: publish_simps prod_eq_iff)
qed

lemma validateSettings_success:
  "validateSettings body p = Inr c \<Longrightarrow>
   \<exists>s a. body = Some s \<and> Port c = p \<and> Auth c = Some a \<and>
     settingsLoginUrl s = Some (loginUrl a) \<and> loginUrl a \<noteq> [] \<and>
     settingsMongoUri s = Some (mongoUri a) \<and> mongoUri a \<noteq> [] \<and>
     settingsSessionSecret s = Some (sessionSecret a) \<and> sessionSecret a \<noteq> [] \<and>
     IotHubConnectionString c = iotHubConnStr s"
  by (cases body) (auto simp: validateSettings_def falsy_def split: if_splits option.splits)

lemma attempt_success:
  "attempt u p w0 = (Inr c, w1) \<Longrightarrow>
   \<exists>d ls l body.
     net w0 (length (events w0)) (u @ ''/api/discovery'') = Resolved (Some d) \<and>
     links d = Some ls \<and> ls ''settings:list'' = Some l \<and>
     net w0 (Suc (length (events w0))) (u @ toString (href l)) = Resolved body \<and>
     validateSettings body p = Inr c"
  by (auto simp: attempt_def getHal_def settingsLinkOf_def
           split: response.splits option.splits sum.splits prod.splits)

lemma initializeFromFile_published:
  "initializeFromFile w = (Inr r, w') \<Longrightarrow>
   configInstance w' = Some r \<and> (\<exists>c. published w' = Some c \<and> Auth c = None)"
  by (auto simp: initializeFromFile_def publish_def published_def Let_def
           split: fileState.splits if_splits)

lemma run_third_time:
  "\<exists>w'. initializeFromConfigService ''http://config'' (Some ''80'')
      (exampleWorld\<lparr>net := serviceReadyThirdTime\<rparr>) = Some (Inr 0, w') \<and>
      published w' = Some exampleConfig \<and>
      events w' =
        [Fetched ''http://config/api/discovery'',
         Warned ''WARNING: Could not initialize from Config Service: Error: ECONNREFUSED; Retrying...'',
         Slept 5000,
         Fetched ''http://config/api/discovery'',
         Warned ''WARNING: Could not initialize from Config Service: Error: ECONNREFUSED; Retrying...'',
         Slept 5000,
         Fetched ''http://config/api/discovery'',
         Fetched ''http://config/api/settings'']"
  by (simp add: initializeFromConfigService_def retryLoop.simps attempt_def getHal_def
      serviceReadyThirdTime_def serviceReady_def settingsLinkOf_def exampleDiscovery_def
      toString_def validateSettings_def exampleSettings_def dmIncomplete_def exampleWorld_def
      afterFailure_def publish_def published_def Let_def exampleConfig_def delayBeforeRetrySeconds_def)

lemma get_uninitialized: "configInstance w = None \<Longrightarrow> get w = (Inl NotInitialized, w)"
  by (simp add: get_def)

lemma get_initialized: "configInstance w = Some r \<Longrightarrow> get w = (Inr r, w)"
  by (simp add: get_def)

lemma initialize_success:
  "initialize w = Some (Inr r, w') \<Longrightarrow> configInstance w' = Some r"
proof -
  assume i: "initialize w = Some (Inr r, w')"
  have f: "initializeFromFile w = (Inr r, w') \<Longrightarrow> configInstance w' = Some r"
    using initializeFromFile_published by blast
  have e: "initializeFromEnvironment w = (Inr r, w') \<Longrightarrow> configInstance w' = Some r"
    by (auto simp: initializeFromEnvironment_def publish_def Let_def)
  have s: "initializeFromConfigService u p w = Some (Inr r, w') \<Longrightarrow> configInstance w' = Some r" for u p
    using initializeFromConfigService_success [of u p w r w'] publish_published by blast
  from initialize_cases [of w] i f e s show ?thesis by (metis option.inject)
qed

lemma lower_canon: "lowerCase (canonicalize c) = lowerCase c"
  by (simp add: canonicalize_def lowerCase_def)

lemma canon_lower: "canonicalize (lowerCase c) = canonicalize c"
  by (simp add: canonicalize_def lowerCase_def)

lemma key_iff:
  "map canonicalize key = map canonicalize ''HostName='' \<longleftrightarrow> map lowerCase key = ''hostname=''"
proof
  assume a: "map canonicalize key = map canonicalize ''HostName=''"
  have "map lowerCase key = map lowerCase (map canonicalize key)"
    by (simp add: lower_canon)
  also have "\<dots> = map lowerCase (map canonicalize ''HostName='')" by (simp only: a)
  also have "\<dots> = ''hostname=''" by (simp add: canonicalize_def lowerCase_def)
  finally show "map lowerCase key = ''hostname=''" .
next
  assume a: "map lowerCase key = ''hostname=''"
  have "map canonicalize key = map canonicalize (map lowerCase key)"
    by (simp add: canon_lower)
  also have "\<dots> = map canonicalize ''hostname=''" by (simp only: a)
  also have "\<dots> = map canonicalize ''HostName=''" by (simp add: canonicalize_def)
  finally show "map canonicalize key = map canonicalize ''HostName=''" .
qed

lemma matchesLiteral_iff:
  "matchesLiteral p s \<longleftrightarrow> (\<exists>key rest. s = key @ rest \<and> map canonicalize key = map canonicalize p)"
proof (induction p s rule: matchesLiteral.induct)
  case (1 s)
  show ?case by simp
next
  case (2 p ps)
  show ?case by auto
next
  case (3 p ps c cs)
  show ?case
  proof
    assume "matchesLiteral (p # ps) (c # cs)"
    then have h: "canonicalize p = canonicalize c" and "matchesLiteral ps cs" by simp_all
    with 3 obtain key rest where "cs = key @ rest" "map canonicalize key = map canonicalize ps"
      by blast
    then have "c # cs = (c # key) @ rest \<and> map canonicalize (c # key) = map canonicalize (p # ps)"
      using h by simp
    then show "\<exists>key rest. c # cs = key @ rest \<and> map canonicalize key = map canonicalize (p # ps)"
      by blast
  next
    assume "\<exists>key rest. c # cs = key @ rest \<and> map canonicalize key = map canonicalize (p # ps)"
    then obtain key rest where k: "c # cs = key @ rest" "map canonicalize key = map canonicalize (p # ps)"
      by blast
    from k(2) obtain k0 ks where ks: "key = k0 # ks" by (cases key) auto
    with k have "k0 = c" "cs = ks @ rest" "canonicalize c = canonicalize p"
      "map canonicalize ks = map canonicalize ps" by auto
    with 3 show "matchesLiteral (p # ps) (c # cs)" by auto
  qed
qed

lemma matchesLiteralI:
  "s = key @ rest \<Longrightarrow> map canonicalize key = map canonicalize p \<Longrightarrow> matchesLiteral p s"
  using matchesLiteral_iff by blast

lemma matchesLiteralD:
  "matchesLiteral p s \<Longrightarrow> \<exists>key rest. s = key @ rest \<and> map canonicalize key = map canonicalize p"
  using matchesLiteral_iff by blast

lemma hostNamePatternSpecI:
  "s = before @ key @ rest \<Longrightarrow> map lowerCase key = ''hostname='' \<Longrightarrow>
   before = [] \<or> (\<exists>b. before = b @ '';'') \<Longrightarrow> hostNamePatternSpec s"
  unfolding hostNamePatternSpec_def by (intro exI conjI)

lemma hostNameTest_iff: "hostNameTest s \<longleftrightarrow> hostNamePatternSpec s"
proof
  assume "hostNameTest s"
  then obtain i where i: "matchesAt i s"
    by (auto simp: hostNameTest_def list_ex_iff)
  show "hostNamePatternSpec s"
  proof (cases "i = 0 \<and> matchesLiteral ''HostName='' s")
    case True
    then have "matchesLiteral ''HostName='' s" by (rule conjunct2)
    from matchesLiteralD [OF this] obtain key rest where
      k: "s = key @ rest" "map canonicalize key = map canonicalize ''HostName=''"
      by (elim exE conjE)
    have l: "map lowerCase key = ''hostname=''" using k(2) by (rule key_iff [THEN iffD1])
    have "s = [] @ key @ rest" using k(1) by simp
    then show ?thesis using l by (rule hostNamePatternSpecI) simp
  next
    case False
    with i have semi: "i < length s" "s ! i = CHR '';''" "matchesLiteral ''HostName='' (drop (Suc i) s)"
      unfolding matchesAt_def by (elim disjE conjE; simp)+
    from matchesLiteralD [OF semi(3)] obtain key rest where
      k: "drop (Suc i) s = key @ rest" "map canonicalize key = map canonicalize ''HostName=''"
      by (elim exE conjE)
    have "s = take i s @ [s ! i] @ drop (Suc i) s"
      using semi(1) by (simp add: id_take_nth_drop)
    then have "s = (take i s @ '';'') @ key @ rest" using semi(2) k(1) by simp
    moreover have "map lowerCase key = ''hostname=''" using k(2) by (rule key_iff [THEN iffD1])
    moreover have "take i s @ '';'' = [] \<or> (\<exists>b. take i s @ '';'' = b @ '';'')" by simp
    ultimately show ?thesis by (rule hostNamePatternSpecI)
  qed
next
  assume "hostNamePatternSpec s"
  then obtain before key rest where
    s: "s = before @ key @ rest" and k: "map lowerCase key = ''hostname=''" and
    b: "before = [] \<or> (\<exists>b. before = b @ '';'')"
    unfolding hostNamePatternSpec_def by (elim exE conjE)
  have kc: "map canonicalize key = map canonicalize ''HostName=''"
    using k by (rule key_iff [THEN iffD2])
  from b show "hostNameTest s"
  proof
    assume "before = []"
    with s have "s = key @ rest" by simp
    then have "matchesLiteral ''HostName='' s" using kc by (rule matchesLiteralI)
    then have "matchesAt 0 s" unfolding matchesAt_def by (intro disjI1 conjI refl)
    moreover have "0 \<in> set [0..<Suc (length s)]" by simp
    ultimately show ?thesis unfolding hostNameTest_def list_ex_iff by (rule bexI)
  next
    assume "\<exists>b. before = b @ '';''"
    then obtain b where bb: "before = b @ '';''" by (elim exE)
    let ?i = "length b"
    have s': "s = b @ CHR '';'' # key @ rest" using s bb by simp
    have i1: "?i < length s" using s' by simp
    have i2: "s ! ?i = CHR '';''" using s' by simp
    have "drop (Suc ?i) s = key @ rest" using s' by simp
    then have i3: "matchesLiteral ''HostName='' (drop (Suc ?i) s)"
      using kc by (rule matchesLiteralI)
    have "matchesAt ?i s" unfolding matchesAt_def by (intro disjI2 conjI i1 i2 i3)
    moreover have "?i \<in> set [0..<Suc (length s)]" using i1 by simp
    ultimately show ?thesis unfolding hostNameTest_def list_ex_iff by (rule bexI)
  qed
qed

lemma falsy_absentOrEmpty: "falsy v = absentOrEmpty v"
  by (cases v) (simp_all add: absentOrEmpty_def)

lemma validateSettings_missing:
  "missingSettingsSpec s \<noteq> [] \<Longrightarrow>
   validateSettings (Some s) p = Inl (MissingSetting (hd (missingSettingsSpec s)))"
  by (auto simp: validateSettings_def missingSettingsSpec_def falsy_absentOrEmpty dmIncomplete_def
      split: option.splits if_splits)

lemma attempt_no_link:
  "net w (length (events w)) (u @ ''/api/discovery'') = Resolved (Some d) \<Longrightarrow>
   links d = Some ls \<Longrightarrow> ls ''settings:list'' = None \<Longrightarrow>
   fst (attempt u p w) = Inl DiscoveryProtocol"
  by (simp add: attempt_def getHal_def settingsLinkOf_def)

lemma attempt_settings:
  "net w (length (events w)) (u @ ''/api/discovery'') = Resolved (Some d) \<Longrightarrow>
   links d = Some ls \<Longrightarrow> ls ''settings:list'' = Some l \<Longrightarrow>
   net w (Suc (length (events w))) (u @ toString (href l)) = Resolved body \<Longrightarrow>
   fst (attempt u p w) = validateSettings body p"
  by (simp add: attempt_def getHal_def settingsLinkOf_def)

lemma attempt_without_secret:
  "net w = serviceWithoutSecret \<Longrightarrow>
   attempt ''http://config'' p w =
     (Inl (MissingSetting ''sessionSecret''),
      w\<lparr>events := events w @ [Fetched ''http://config/api/discovery'',
                                 Fetched ''http://config/api/settings'']\<rparr>)"
  by (simp add: attempt_def getHal_def serviceWithoutSecret_def settingsLinkOf_def
      exampleDiscovery_def toString_def validateSettings_def exampleSettings_def)

lemma attempt_failed_cases:
  "isl (fst (attempt u p w)) \<Longrightarrow> \<exists>e w1. attempt u p w = (Inl e, w1)"
  by (cases "attempt u p w"; cases "fst (attempt u p w)") auto

lemma retryLoop_skip:
  "k \<le> n \<Longrightarrow> \<forall>j<k. isl (fst (attempt u p (attemptStart j u p w))) \<Longrightarrow>
   retryLoop (int (Suc n)) u p w = retryLoop (int (Suc n - k)) u p (attemptStart k u p w)"
proof (induction k)
  case 0
  show ?case by simp
next
  case (Suc k)
  then have ih: "retryLoop (int (Suc n)) u p w =
      retryLoop (int (Suc n - k)) u p (attemptStart k u p w)" by simp
  from Suc.prems have "isl (fst (attempt u p (attemptStart k u p w)))" by simp
  then obtain e w1 where a: "attempt u p (attemptStart k u p w) = (Inl e, w1)"
    using attempt_failed_cases by blast
  have nz: "int (Suc n - k) - 1 \<noteq> 0" using Suc.prems(1) by simp
  have eq: "int (Suc n - k) - 1 = int (Suc n - Suc k)" using Suc.prems(1) by simp
  have "retryLoop (int (Suc n - k)) u p (attemptStart k u p w) =
      retryLoop (int (Suc n - k) - 1) u p (afterFailure e w1)"
    using retryLoop_failed [OF a, of "int (Suc n - k)"] nz by simp
  also have "afterFailure e w1 = attemptStart (Suc k) u p w"
    using a by (simp add: attemptStart_Suc nextAttempt_failed)
  finally show ?case using ih eq by simp
qed

lemma call_continues_after_failures:
  assumes "k < 59" and "\<forall>j\<le>k. isl (fst (attempt u p (attemptStart j u p w)))"
  shows "initializeFromConfigService u p w =
           retryLoop (59 - int k) u p (attemptStart (Suc k) u p w)"
proof -
  have "Suc k \<le> 59" using assms(1) by simp
  moreover have "\<forall>j<Suc k. isl (fst (attempt u p (attemptStart j u p w)))"
    using assms(2) by (simp add: less_Suc_eq_le)
  ultimately have "retryLoop (int (Suc 59)) u p w =
      retryLoop (int (Suc 59 - Suc k)) u p (attemptStart (Suc k) u p w)"
    by (rule retryLoop_skip)
  moreover have "int (Suc 59 - Suc k) = 59 - int k" using assms(1) by simp
  ultimately show ?thesis by (simp add: initializeFromConfigService_def)
qed

lemma call_succeeds_after_failures:
  assumes "k < 60" and "\<forall>j<k. isl (fst (attempt u p (attemptStart j u p w)))"
    and "attempt u p (attemptStart k u p w) = (Inr c, w1)"
  shows "initializeFromConfigService u p w = Some (publish c w1)"
proof -
  have "k \<le> 59" using assms(1) by simp
  from retryLoop_skip [OF this assms(2)]
  have "retryLoop (int (Suc 59)) u p w = retryLoop (int (Suc 59 - k)) u p (attemptStart k u p w)" .
  also have "\<dots> = Some (publish c w1)" using assms(3) by (rule retryLoop_succeeded)
  finally show ?thesis by (simp add: initializeFromConfigService_def)
qed

lemma events_after_failure:
  "attempt u p (attemptStart k u p w) = (Inl e, w1) \<Longrightarrow>
   events (attemptStart (Suc k) u p w) =
     events w1 @
       [Warned (''WARNING: Could not initialize from Config Service: '' @ describe e
                @ ''; Retrying...''),
        Slept 5000]"
  by (simp add: attemptStart_Suc nextAttempt_failed afterFailure_def delayBeforeRetrySeconds_def)

lemma initializeFromFile_publishes:
  "userConfigDocument w = Loaded doc \<Longrightarrow> hostNameTest (toString (IOTHUB_CONNECTION_STRING doc)) \<Longrightarrow>
   \<exists>r w' c. initializeFromFile w = (Inr r, w') \<and> configInstance w' = Some r \<and>
     published w' = Some c \<and> Auth c = None"
  by (simp add: initializeFromFile_def publish_def published_def Let_def)

lemma initializeFromEnvironment_publishes:
  "\<exists>r w' c. initializeFromEnvironment w = (Inr r, w') \<and> configInstance w' = Some r \<and>
     published w' = Some c \<and> Auth c = None"
  by (simp add: initializeFromEnvironment_def publish_def published_def Let_def)

lemma publish_Inr: "\<exists>r w'. publish c w = (Inr r, w')"
  by (simp add: publish_def Let_def)

lemma third_time_attempts:
  "isl (fst (attempt ''http://config'' (Some ''80'')
        (attemptStart 0 ''http://config'' (Some ''80'') (exampleWorld\<lparr>net := serviceReadyThirdTime\<rparr>))))"
  "isl (fst (attempt ''http://config'' (Some ''80'')
        (attemptStart (Suc 0) ''http://config'' (Some ''80'') (exampleWorld\<lparr>net := serviceReadyThirdTime\<rparr>))))"
  "fst (attempt ''http://config'' (Some ''80'')
        (attemptStart (Suc (Suc 0)) ''http://config'' (Some ''80'') (exampleWorld\<lparr>net := serviceReadyThirdTime\<rparr>)))
     = Inr exampleConfig"
  by (simp_all add: attemptStart_def nextAttempt_def attempt_def getHal_def
      serviceReadyThirdTime_def serviceReady_def settingsLinkOf_def exampleDiscovery_def
      toString_def validateSettings_def exampleSettings_def dmIncomplete_def exampleWorld_def
      afterFailure_def exampleConfig_def)

lemma nextAttempt_heap [simp]: "heap (nextAttempt u p w) = heap w"
proof -
  obtain r w1 where a: "attempt u p w = (r, w1)" by (cases "attempt u p w")
  have "heap w1 = heap w" using attempt_heap [of u p w] a by simp
  then show ?thesis using a by (cases r) (simp_all add: nextAttempt_def)
qed

lemma attemptStart_heap [simp]: "heap (attemptStart k u p w) = heap w"
  by (induction k) (simp_all add: attemptStart_Suc)

section \<open>The retry budget of the discovery service\<close>

text \<open>
  C1: when each of the 60 attempts that \<open>initializeFromConfigService\<close> can make fails,
  the call returns, after exactly 60 attempts: its result is the error
  ConfigServiceUnavailable, whose message is the fixed prefix followed by the
  description of the failure of the 60th attempt, and the world it leaves is the world
  right after that 60th attempt, so nothing is fetched, logged or waited for after it.
  The timers of the call are 59 timers of 5000 milliseconds, one between the start of
  each attempt and the start of the next.
\<close>

theorem discovery_gives_up_after_60_attempts:
  assumes "\<forall>k<60. isl (fst (attempt configUrl port (attemptStart k configUrl port w)))"
  shows "\<exists>err final.
           attempt configUrl port (attemptStart 59 configUrl port w) = (Inl err, final) \<and>
           initializeFromConfigService configUrl port w =
             Some (Inl (ConfigServiceUnavailable (describe err)), final) \<and>
           message (ConfigServiceUnavailable (describe err)) =
             ''Could not initialize from Config Service: '' @ describe err \<and>
           sleeps final = sleeps w @ replicate 59 (Slept (5 * 1000)) \<and>
           (\<forall>k<59. sleeps (attemptStart (Suc k) configUrl port w) =
                     sleeps (attemptStart k configUrl port w) @ [Slept (5 * 1000)])"
proof -
  let ?w59 = "attemptStart 59 configUrl port w"
  from assms have "isl (fst (attempt configUrl port ?w59))" by simp
  then obtain err final where a: "attempt configUrl port ?w59 = (Inl err, final)"
    by (cases "attempt configUrl port ?w59"; cases "fst (attempt configUrl port ?w59)") auto
  from assms have "\<forall>k\<le>59. isl (fst (attempt configUrl port (attemptStart k configUrl port w)))"
    by simp
  from retryLoop_all_fail [OF this]
  have r: "initializeFromConfigService configUrl port w =
             Some (Inl (ConfigServiceUnavailable (describe err)), final)"
    using a by (simp add: initializeFromConfigService_def)
  have s59: "sleeps ?w59 = sleeps w @ replicate 59 (Slept 5000)"
    by (rule sleeps_attemptStart) (use assms in simp)
  have "sleeps final = sleeps ?w59" using attempt_sleeps [of configUrl port ?w59] a by simp
  with s59 have s: "sleeps final = sleeps w @ replicate 59 (Slept (5 * 1000))" by simp
  have d: "\<forall>k<59. sleeps (attemptStart (Suc k) configUrl port w) =
                     sleeps (attemptStart k configUrl port w) @ [Slept (5 * 1000)]"
  proof (intro allI impI)
    fix k :: nat assume k: "k < 59"
    have "sleeps (attemptStart (Suc k) configUrl port w) = sleeps w @ replicate (Suc k) (Slept 5000)"
      by (rule sleeps_attemptStart) (use assms k in simp)
    moreover have "sleeps (attemptStart k configUrl port w) = sleeps w @ replicate k (Slept 5000)"
      by (rule sleeps_attemptStart) (use assms k in simp)
    ultimately show "sleeps (attemptStart (Suc k) configUrl port w) =
                     sleeps (attemptStart k configUrl port w) @ [Slept (5 * 1000)]"
      by (simp add: replicate_append_same)
  qed
  from a r s d show ?thesis by simp
qed

theorem discovery_gives_up_after_60_attempts_witness:
  "\<exists>final.
     initializeFromConfigService ''http://config'' (Some ''80'')
         (exampleWorld\<lparr>net := serviceWithoutLink\<rparr>) =
       Some (Inl (ConfigServiceUnavailable ''Error: Config service does not provide settings:list''),
             final) \<and>
     sleeps final = replicate 59 (Slept 5000) \<and>
     events final =
       concat (replicate 59
         [Fetched ''http://config/api/discovery'',
          Warned ''WARNING: Could not initialize from Config Service: Error: Config service does not provide settings:list; Retrying...'',
          Slept 5000])
       @ [Fetched ''http://config/api/discovery'']"
proof -
  let ?w = "exampleWorld\<lparr>net := serviceWithoutLink\<rparr>"
  let ?u = "''http://config''" and ?p = "Some ''80''"
  have n: "net (attemptStart k ?u ?p ?w) = serviceWithoutLink" for k by simp
  have "\<forall>k<60. isl (fst (attempt ?u ?p (attemptStart k ?u ?p ?w)))"
    using attempt_without_link [OF n] by simp
  from discovery_gives_up_after_60_attempts [OF this] obtain err final where
    a: "attempt ?u ?p (attemptStart 59 ?u ?p ?w) = (Inl err, final)" and
    r: "initializeFromConfigService ?u ?p ?w = Some (Inl (ConfigServiceUnavailable (describe err)), final)" and
    s: "sleeps final = sleeps ?w @ replicate 59 (Slept (5 * 1000))"
    by blast
  from a attempt_without_link [OF n, of ?u ?p 59]
  have e: "err = DiscoveryProtocol"
    and f: "final = (attemptStart 59 ?u ?p ?w)\<lparr>events := events (attemptStart 59 ?u ?p ?w) @ [Fetched (?u @ ''/api/discovery'')]\<rparr>"
    by simp_all
  have w0: "net ?w = serviceWithoutLink" by simp
  have ev: "events final = concat (replicate 59
         [Fetched ''http://config/api/discovery'',
          Warned ''WARNING: Could not initialize from Config Service: Error: Config service does not provide settings:list; Retrying...'',
          Slept 5000])
       @ [Fetched ''http://config/api/discovery'']"
    using events_without_link [OF w0, of 59 ?u ?p] f by (simp add: exampleWorld_def)
  have s0: "sleeps ?w = []" by (simp add: sleeps_def exampleWorld_def)
  from r e s s0 ev show ?thesis by simp
qed

section \<open>Source selection\<close>

text \<open>
  C2, as the specification states it, fails: a variable that is present in the
  environment with the empty string as its value is falsy, so \<^verbatim>\<open>CONFIG_URL=''\<close>
  with \<^verbatim>\<open>PORT='8080'\<close> selects the environment, not the discovery service.
\<close>

theorem empty_config_url_selects_environment:
  "selectStrategy (Some []) (Some ''8080'') = FromEnvironment \<and>
   initialize (exampleWorld\<lparr>envCONFIG_URL := Some [], envPORT := Some ''8080''\<rparr>) =
     Some (initializeFromEnvironment
             (exampleWorld\<lparr>envCONFIG_URL := Some [], envPORT := Some ''8080''\<rparr>))"
  by (simp add: selectStrategy_def initialize_def exampleWorld_def)

text \<open>
  C2, amended: with "present" read as "set to a non-empty string" (an unset variable and
  an empty one are both absent), \<open>initialize\<close> follows the table for every environment:
  both absent selects the file; no URL and a port selects the environment; a URL selects
  the discovery service whatever the port, and is called with that URL and that port.
\<close>

theorem initialize_selects_strategy:
  "(falsy (envCONFIG_URL w) \<and> falsy (envPORT w) \<longrightarrow>
      selectStrategy (envCONFIG_URL w) (envPORT w) = FromFile \<and>
      initialize w = Some (initializeFromFile w)) \<and>
   (falsy (envCONFIG_URL w) \<and> \<not> falsy (envPORT w) \<longrightarrow>
      selectStrategy (envCONFIG_URL w) (envPORT w) = FromEnvironment \<and>
      initialize w = Some (initializeFromEnvironment w)) \<and>
   (\<not> falsy (envCONFIG_URL w) \<longrightarrow>
      selectStrategy (envCONFIG_URL w) (envPORT w) = FromConfigService \<and>
      initialize w = initializeFromConfigService (the (envCONFIG_URL w)) (envPORT w) w)"
  by (simp add: selectStrategy_def initialize_def)

theorem initialize_selects_strategy_witness:
  "selectStrategy None None = FromFile \<and>
   selectStrategy None (Some ''80'') = FromEnvironment \<and>
   selectStrategy (Some ''http://config'') None = FromConfigService \<and>
   selectStrategy (Some ''http://config'') (Some ''80'') = FromConfigService \<and>
   initialize exampleWorld = Some (initializeFromFile exampleWorld)"
  using initialize_selects_strategy [of exampleWorld]
    initialize_selects_strategy [of "exampleWorld\<lparr>envPORT := Some ''80''\<rparr>"]
    initialize_selects_strategy [of "exampleWorld\<lparr>envCONFIG_URL := Some ''http://config''\<rparr>"]
    initialize_selects_strategy
      [of "exampleWorld\<lparr>envCONFIG_URL := Some ''http://config'', envPORT := Some ''80''\<rparr>"]
  by (simp add: exampleWorld_def)

section \<open>Failures of one attempt\<close>

text \<open>
  C3, as the specification states it, fails: a discovery body without a link collection
  (the body \<^verbatim>\<open>{}\<close>) has no relation \<^verbatim>\<open>settings:list\<close>, yet reading the relation on
  line 79 throws a TypeError before the test on line 80 is reached, so the attempt does
  not raise DiscoveryProtocol.
\<close>

theorem missing_link_collection_raises_TypeError:
  "net (exampleWorld\<lparr>net := serviceWithEmptyBody\<rparr>)
       (length (events (exampleWorld\<lparr>net := serviceWithEmptyBody\<rparr>)))
       ''http://config/api/discovery'' = Resolved (Some emptyBody) \<and>
   links emptyBody = None \<and>
   fst (attempt ''http://config'' None (exampleWorld\<lparr>net := serviceWithEmptyBody\<rparr>)) =
     Inl (TypeError ''Cannot read property 'settings:list' of undefined'')"
  by (simp add: attempt_def getHal_def serviceWithEmptyBody_def emptyBody_def settingsLinkOf_def)

text \<open>
  C3, amended: within one attempt, a discovery resource whose link collection lacks the
  relation \<^verbatim>\<open>settings:list\<close> raises DiscoveryProtocol; a settings resource in which
  one of the four required fields is absent or empty, or whose device-management object
  is absent or incomplete, raises MissingSetting with the name of the first such
  setting. Whatever the error of a failed attempt is, the call treats it in one way:
  after a failure among the first 59 attempts it warns with the description of the
  error, waits 5000 milliseconds and goes on with the next attempt and the rest of the
  budget; an attempt that succeeds after failures makes the call succeed; on the 60th
  attempt the description is wrapped in ConfigServiceUnavailable. The error of an
  attempt is never the error of the call.
\<close>

theorem attempt_failures_are_retried:
  "(net w (length (events w)) (configUrl @ ''/api/discovery'') = Resolved (Some d) \<and>
    links d = Some ls \<and> ls ''settings:list'' = None \<longrightarrow>
      fst (attempt configUrl port w) = Inl DiscoveryProtocol) \<and>
   (net w (length (events w)) (configUrl @ ''/api/discovery'') = Resolved (Some d) \<and>
    links d = Some ls \<and> ls ''settings:list'' = Some l \<and>
    net w (Suc (length (events w))) (configUrl @ toString (href l)) = Resolved (Some s) \<and>
    missingSettingsSpec s \<noteq> [] \<longrightarrow>
      fst (attempt configUrl port w) = Inl (MissingSetting (hd (missingSettingsSpec s))) \<and>
      hd (missingSettingsSpec s) \<in> set (missingSettingsSpec s)) \<and>
   (attempt configUrl port w = (Inl e, w1) \<longrightarrow>
      retryLoop n configUrl port w =
        (if n - 1 = 0 then Some (Inl (ConfigServiceUnavailable (describe e)), w1)
         else retryLoop (n - 1) configUrl port (afterFailure e w1))) \<and>
   (k < 59 \<and> (\<forall>j<k. isl (fst (attempt configUrl port (attemptStart j configUrl port w)))) \<and>
    attempt configUrl port (attemptStart k configUrl port w) = (Inl e, w1) \<longrightarrow>
      initializeFromConfigService configUrl port w =
        retryLoop (59 - int k) configUrl port (attemptStart (Suc k) configUrl port w) \<and>
      events (attemptStart (Suc k) configUrl port w) =
        events w1 @
          [Warned (''WARNING: Could not initialize from Config Service: '' @ describe e
                   @ ''; Retrying...''),
           Slept (5 * 1000)]) \<and>
   (k < 60 \<and> (\<forall>j<k. isl (fst (attempt configUrl port (attemptStart j configUrl port w)))) \<and>
    attempt configUrl port (attemptStart k configUrl port w) = (Inr c, w1) \<longrightarrow>
      initializeFromConfigService configUrl port w = Some (publish c w1)) \<and>
   (initializeFromConfigService configUrl port w = Some (Inl e, w') \<longrightarrow>
      e \<noteq> DiscoveryProtocol \<and> (\<forall>field. e \<noteq> MissingSetting field) \<and>
      (\<exists>description. e = ConfigServiceUnavailable description))"
proof (intro conjI impI)
  assume "net w (length (events w)) (configUrl @ ''/api/discovery'') = Resolved (Some d) \<and>
    links d = Some ls \<and> ls ''settings:list'' = None"
  then show "fst (attempt configUrl port w) = Inl DiscoveryProtocol"
    using attempt_no_link by blast
next
  assume a: "net w (length (events w)) (configUrl @ ''/api/discovery'') = Resolved (Some d) \<and>
    links d = Some ls \<and> ls ''settings:list'' = Some l \<and>
    net w (Suc (length (events w))) (configUrl @ toString (href l)) = Resolved (Some s) \<and>
    missingSettingsSpec s \<noteq> []"
  then have "fst (attempt configUrl port w) = validateSettings (Some s) port"
    using attempt_settings by blast
  with a show "fst (attempt configUrl port w) = Inl (MissingSetting (hd (missingSettingsSpec s)))"
    by (simp add: validateSettings_missing)
  from a show "hd (missingSettingsSpec s) \<in> set (missingSettingsSpec s)" by simp
next
  assume "attempt configUrl port w = (Inl e, w1)"
  then show "retryLoop n configUrl port w =
        (if n - 1 = 0 then Some (Inl (ConfigServiceUnavailable (describe e)), w1)
         else retryLoop (n - 1) configUrl port (afterFailure e w1))"
    by (rule retryLoop_failed)
next
  assume h: "k < 59 \<and> (\<forall>j<k. isl (fst (attempt configUrl port (attemptStart j configUrl port w)))) \<and>
    attempt configUrl port (attemptStart k configUrl port w) = (Inl e, w1)"
  then have "\<forall>j\<le>k. isl (fst (attempt configUrl port (attemptStart j configUrl port w)))"
    by (auto simp: le_less)
  with h show "initializeFromConfigService configUrl port w =
        retryLoop (59 - int k) configUrl port (attemptStart (Suc k) configUrl port w)"
    using call_continues_after_failures by blast
  from h show "events (attemptStart (Suc k) configUrl port w) =
        events w1 @
          [Warned (''WARNING: Could not initialize from Config Service: '' @ describe e
                   @ ''; Retrying...''),
           Slept (5 * 1000)]"
    using events_after_failure [of configUrl port k w e w1] by simp
next
  assume "k < 60 \<and> (\<forall>j<k. isl (fst (attempt configUrl port (attemptStart j configUrl port w)))) \<and>
    attempt configUrl port (attemptStart k configUrl port w) = (Inr c, w1)"
  then show "initializeFromConfigService configUrl port w = Some (publish c w1)"
    using call_succeeds_after_failures by blast
next
  assume "initializeFromConfigService configUrl port w = Some (Inl e, w')"
  from initializeFromConfigService_failure [OF this]
  obtain description where e: "e = ConfigServiceUnavailable description" by blast
  then show "e \<noteq> DiscoveryProtocol" "\<forall>field. e \<noteq> MissingSetting field"
    "\<exists>description. e = ConfigServiceUnavailable description" by simp_all
qed

theorem attempt_failures_are_retried_witness:
  "fst (attempt ''http://config'' None (exampleWorld\<lparr>net := serviceWithoutLink\<rparr>))
     = Inl DiscoveryProtocol \<and>
   fst (attempt ''http://config'' None (exampleWorld\<lparr>net := serviceWithoutSecret\<rparr>))
     = Inl (MissingSetting ''sessionSecret'') \<and>
   initializeFromConfigService ''http://config'' None (exampleWorld\<lparr>net := serviceWithoutSecret\<rparr>) =
     retryLoop 59 ''http://config'' None
       (attemptStart (Suc 0) ''http://config'' None (exampleWorld\<lparr>net := serviceWithoutSecret\<rparr>)) \<and>
   events (attemptStart (Suc 0) ''http://config'' None (exampleWorld\<lparr>net := serviceWithoutSecret\<rparr>)) =
     [Fetched ''http://config/api/discovery'',
      Fetched ''http://config/api/settings'',
      Warned (''WARNING: Could not initialize from Config Service: Error: Config service does not provide setting ''
              @ [CHR 0x22] @ ''sessionSecret'' @ [CHR 0x22] @ ''; Retrying...''),
      Slept 5000] \<and>
   (\<exists>w'. initializeFromConfigService ''http://config'' (Some ''80'')
           (exampleWorld\<lparr>net := serviceReadyThirdTime\<rparr>) = Some (Inr 0, w')) \<and>
   (\<exists>description w'.
      initializeFromConfigService ''http://config'' None (exampleWorld\<lparr>net := serviceWithoutSecret\<rparr>)
        = Some (Inl (ConfigServiceUnavailable description), w'))"
proof -
  let ?u = "''http://config''"
  let ?w1 = "exampleWorld\<lparr>net := serviceWithoutLink\<rparr>"
  let ?w2 = "exampleWorld\<lparr>net := serviceWithoutSecret\<rparr>"
  let ?w3 = "exampleWorld\<lparr>net := serviceReadyThirdTime\<rparr>"
  let ?s = "exampleSettings\<lparr>settingsSessionSecret := None\<rparr>"
  let ?l = "\<lparr>href = Some ''/api/settings''\<rparr>"
  let ?ls = "[''settings:list'' \<mapsto> ?l]"
  have h1: "net ?w1 (length (events ?w1)) (?u @ ''/api/discovery'') = Resolved (Some discoveryWithoutLink) \<and>
    links discoveryWithoutLink = Some Map.empty \<and> Map.empty ''settings:list'' = (None :: halLink option)"
    by (simp add: serviceWithoutLink_def discoveryWithoutLink_def)
  note a = attempt_failures_are_retried [where w = ?w1 and configUrl = ?u and d = discoveryWithoutLink
      and ls = Map.empty and port = None, THEN conjunct1, THEN mp, OF h1]
  have m: "missingSettingsSpec ?s = [''sessionSecret'']"
    by (simp add: missingSettingsSpec_def exampleSettings_def absentOrEmpty_def)
  have h2: "net ?w2 (length (events ?w2)) (?u @ ''/api/discovery'') = Resolved (Some exampleDiscovery) \<and>
    links exampleDiscovery = Some ?ls \<and> ?ls ''settings:list'' = Some ?l \<and>
    net ?w2 (Suc (length (events ?w2))) (?u @ toString (href ?l)) = Resolved (Some ?s) \<and>
    missingSettingsSpec ?s \<noteq> []"
    using m by (simp add: serviceWithoutSecret_def exampleDiscovery_def toString_def exampleWorld_def)
  from attempt_failures_are_retried [where w = ?w2 and configUrl = ?u and d = exampleDiscovery
      and ls = ?ls and l = ?l and s = ?s and port = None,
      THEN conjunct2, THEN conjunct1, THEN mp, OF h2]
  have b: "fst (attempt ?u None ?w2) = Inl (MissingSetting ''sessionSecret'')"
    using m by simp
  have n2: "net (attemptStart k ?u None ?w2) = serviceWithoutSecret" for k by simp
  have a0: "attempt ?u None (attemptStart 0 ?u None ?w2) =
      (Inl (MissingSetting ''sessionSecret''),
       (attemptStart 0 ?u None ?w2)\<lparr>events := events (attemptStart 0 ?u None ?w2) @
          [Fetched ''http://config/api/discovery'', Fetched ''http://config/api/settings'']\<rparr>)"
    by (rule attempt_without_secret [OF n2])
  have k0: "(0::nat) < 59" by simp
  have f0: "\<forall>j<0::nat. isl (fst (attempt ?u None (attemptStart j ?u None ?w2)))" by simp
  note c = attempt_failures_are_retried [where w = ?w2 and configUrl = ?u and port = None and k = 0
      and e = "MissingSetting ''sessionSecret''", THEN conjunct2, THEN conjunct2, THEN conjunct2,
      THEN conjunct1, THEN mp, OF conjI [OF k0 conjI [OF f0 a0]]]
  have c1: "initializeFromConfigService ?u None ?w2 =
     retryLoop 59 ?u None (attemptStart (Suc 0) ?u None ?w2)"
    using c [THEN conjunct1] by simp
  have c2: "events (attemptStart (Suc 0) ?u None ?w2) =
     [Fetched ''http://config/api/discovery'',
      Fetched ''http://config/api/settings'',
      Warned (''WARNING: Could not initialize from Config Service: Error: Config service does not provide setting ''
              @ [CHR 0x22] @ ''sessionSecret'' @ [CHR 0x22] @ ''; Retrying...''),
      Slept 5000]"
    using c [THEN conjunct2] by (simp add: exampleWorld_def)
  obtain w1 where a3: "attempt ?u (Some ''80'') (attemptStart 2 ?u (Some ''80'') ?w3) = (Inr exampleConfig, w1)"
    using third_time_attempts(3)
    by (cases "attempt ?u (Some ''80'') (attemptStart 2 ?u (Some ''80'') ?w3)") (simp add: numeral_2_eq_2)
  have f3: "\<forall>j<2. isl (fst (attempt ?u (Some ''80'') (attemptStart j ?u (Some ''80'') ?w3)))"
    using third_time_attempts(1,2) by (simp add: less_Suc_eq numeral_2_eq_2)
  have k3: "(2::nat) < 60" by simp
  note s3 = attempt_failures_are_retried [where w = ?w3 and configUrl = ?u and port = "Some ''80''" and k = 2
      and c = exampleConfig and ?w1.0 = w1, THEN conjunct2, THEN conjunct2, THEN conjunct2,
      THEN conjunct2, THEN conjunct1, THEN mp, OF conjI [OF k3 conjI [OF f3 a3]]]
  have "heap w1 = heap (attemptStart 2 ?u (Some ''80'') ?w3)"
    using attempt_heap [of ?u "Some ''80''" "attemptStart 2 ?u (Some ''80'') ?w3"] a3 by simp
  also have "\<dots> = []" by (simp add: exampleWorld_def)
  finally have "fst (publish exampleConfig w1) = Inr 0" by (simp add: publish_simps)
  with s3 have d: "\<exists>w'. initializeFromConfigService ?u (Some ''80'') ?w3 = Some (Inr 0, w')"
    by (intro exI [of _ "snd (publish exampleConfig w1)"]) (simp add: prod_eq_iff)
  have "\<forall>k\<le>59. isl (fst (attempt ?u None (attemptStart k ?u None ?w2)))"
    using attempt_without_secret [OF n2] by simp
  from retryLoop_all_fail [OF this] obtain e w' where
    r: "initializeFromConfigService ?u None ?w2 = Some (Inl e, w')"
    by (simp add: initializeFromConfigService_def)
  from attempt_failures_are_retried [where w = ?w2 and configUrl = ?u and port = None and e = e and w' = w',
      THEN conjunct2, THEN conjunct2, THEN conjunct2, THEN conjunct2, THEN conjunct2, THEN mp, OF r]
  obtain description where "e = ConfigServiceUnavailable description"
    by (elim exE conjE) (rule that, assumption+)
  with r have g: "\<exists>description w'. initializeFromConfigService ?u None ?w2
        = Some (Inl (ConfigServiceUnavailable description), w')" by blast
  show ?thesis by (intro conjI a b c1 c2 d g)
qed

section \<open>The published Config\<close>

text \<open>
  C4: when \<open>initializeFromConfigService\<close> succeeds, the Config it publishes has the
  port the caller passed, and its Auth holds the loginUrl, mongoUri and sessionSecret
  of a settings resource that the service returned for the link \<^verbatim>\<open>settings:list\<close> of
  a discovery resource it returned one request earlier; and it does succeed, publishing
  the Config of that attempt with the caller's port and an Auth, as soon as one of its
  60 attempts succeeds. \<open>initializeFromFile\<close> on a loaded document with a valid
  connection string, and \<open>initializeFromEnvironment\<close> in every world, succeed and
  publish a Config that has no Auth.
\<close>

theorem published_auth_and_port:
  "(initializeFromConfigService configUrl port w = Some (Inr r, w') \<longrightarrow>
      configInstance w' = Some r \<and>
      (\<exists>c a t d ls l s.
         published w' = Some c \<and> Port c = port \<and> Auth c = Some a \<and>
         net w t (configUrl @ ''/api/discovery'') = Resolved (Some d) \<and>
         links d = Some ls \<and> ls ''settings:list'' = Some l \<and>
         net w (Suc t) (configUrl @ toString (href l)) = Resolved (Some s) \<and>
         settingsLoginUrl s = Some (loginUrl a) \<and>
         settingsMongoUri s = Some (mongoUri a) \<and>
         settingsSessionSecret s = Some (sessionSecret a))) \<and>
   (k < 60 \<and> (\<forall>j<k. isl (fst (attempt configUrl port (attemptStart j configUrl port w)))) \<and>
    attempt configUrl port (attemptStart k configUrl port w) = (Inr c0, w1) \<longrightarrow>
      (\<exists>r0 w0. initializeFromConfigService configUrl port w = Some (Inr r0, w0) \<and>
         configInstance w0 = Some r0 \<and> published w0 = Some c0 \<and> Port c0 = port \<and>
         Auth c0 \<noteq> None)) \<and>
   (initializeFromFile w = (Inr r, w') \<longrightarrow>
      configInstance w' = Some r \<and> (\<exists>c. published w' = Some c \<and> Auth c = None)) \<and>
   (userConfigDocument w = Loaded doc \<and> hostNameTest (toString (IOTHUB_CONNECTION_STRING doc)) \<longrightarrow>
      (\<exists>r1 w1 c. initializeFromFile w = (Inr r1, w1) \<and> configInstance w1 = Some r1 \<and>
         published w1 = Some c \<and> Auth c = None)) \<and>
   (initializeFromEnvironment w = (Inr r, w') \<longrightarrow>
      configInstance w' = Some r \<and> (\<exists>c. published w' = Some c \<and> Auth c = None)) \<and>
   (\<exists>r2 w2 c. initializeFromEnvironment w = (Inr r2, w2) \<and> configInstance w2 = Some r2 \<and>
      published w2 = Some c \<and> Auth c = None)"
proof -
  have c1: "initializeFromConfigService configUrl port w = Some (Inr r, w') \<longrightarrow>
      configInstance w' = Some r \<and>
      (\<exists>c a t d ls l s.
         published w' = Some c \<and> Port c = port \<and> Auth c = Some a \<and>
         net w t (configUrl @ ''/api/discovery'') = Resolved (Some d) \<and>
         links d = Some ls \<and> ls ''settings:list'' = Some l \<and>
         net w (Suc t) (configUrl @ toString (href l)) = Resolved (Some s) \<and>
         settingsLoginUrl s = Some (loginUrl a) \<and>
         settingsMongoUri s = Some (mongoUri a) \<and>
         settingsSessionSecret s = Some (sessionSecret a))"
  proof
    assume "initializeFromConfigService configUrl port w = Some (Inr r, w')"
    from initializeFromConfigService_success [OF this] obtain w0 c w1 where
      a: "attempt configUrl port w0 = (Inr c, w1)" and n: "net w0 = net w" and
      pb: "publish c w1 = (Inr r, w')" by blast
    from attempt_success [OF a] obtain d ls l body where
      d: "net w0 (length (events w0)) (configUrl @ ''/api/discovery'') = Resolved (Some d)"
        "links d = Some ls" "ls ''settings:list'' = Some l"
        "net w0 (Suc (length (events w0))) (configUrl @ toString (href l)) = Resolved body"
      and v: "validateSettings body port = Inr c" by blast
    from validateSettings_success [OF v] obtain s a where
      s: "body = Some s" "Port c = port" "Auth c = Some a"
        "settingsLoginUrl s = Some (loginUrl a)" "settingsMongoUri s = Some (mongoUri a)"
        "settingsSessionSecret s = Some (sessionSecret a)" by blast
    from publish_published [OF pb] have p: "configInstance w' = Some r" "published w' = Some c"
      by simp_all
    have "\<exists>c a t d ls l s.
         published w' = Some c \<and> Port c = port \<and> Auth c = Some a \<and>
         net w t (configUrl @ ''/api/discovery'') = Resolved (Some d) \<and>
         links d = Some ls \<and> ls ''settings:list'' = Some l \<and>
         net w (Suc t) (configUrl @ toString (href l)) = Resolved (Some s) \<and>
         settingsLoginUrl s = Some (loginUrl a) \<and>
         settingsMongoUri s = Some (mongoUri a) \<and>
         settingsSessionSecret s = Some (sessionSecret a)"
      using p(2) s d n by (intro exI [of _ c] exI [of _ a] exI [of _ "length (events w0)"]
          exI [of _ d] exI [of _ ls] exI [of _ l] exI [of _ s]) simp
    with p(1) show "configInstance w' = Some r \<and>
      (\<exists>c a t d ls l s.
         published w' = Some c \<and> Port c = port \<and> Auth c = Some a \<and>
         net w t (configUrl @ ''/api/discovery'') = Resolved (Some d) \<and>
         links d = Some ls \<and> ls ''settings:list'' = Some l \<and>
         net w (Suc t) (configUrl @ toString (href l)) = Resolved (Some s) \<and>
         settingsLoginUrl s = Some (loginUrl a) \<and>
         settingsMongoUri s = Some (mongoUri a) \<and>
         settingsSessionSecret s = Some (sessionSecret a))" by (rule conjI)
  qed
  have c2: "k < 60 \<and> (\<forall>j<k. isl (fst (attempt configUrl port (attemptStart j configUrl port w)))) \<and>
    attempt configUrl port (attemptStart k configUrl port w) = (Inr c0, w1) \<longrightarrow>
      (\<exists>r0 w0. initializeFromConfigService configUrl port w = Some (Inr r0, w0) \<and>
         configInstance w0 = Some r0 \<and> published w0 = Some c0 \<and> Port c0 = port \<and>
         Auth c0 \<noteq> None)"
  proof
    assume h: "k < 60 \<and> (\<forall>j<k. isl (fst (attempt configUrl port (attemptStart j configUrl port w)))) \<and>
      attempt configUrl port (attemptStart k configUrl port w) = (Inr c0, w1)"
    then have a: "attempt configUrl port (attemptStart k configUrl port w) = (Inr c0, w1)" by simp
    from h have run: "initializeFromConfigService configUrl port w = Some (publish c0 w1)"
      using call_succeeds_after_failures by blast
    obtain r0 w0 where pb: "publish c0 w1 = (Inr r0, w0)" using publish_Inr by blast
    from attempt_success [OF a] obtain body where v: "validateSettings body port = Inr c0" by blast
    from validateSettings_success [OF v] have pa: "Port c0 = port" "Auth c0 \<noteq> None" by auto
    from publish_published [OF pb] run pb pa
    show "\<exists>r0 w0. initializeFromConfigService configUrl port w = Some (Inr r0, w0) \<and>
         configInstance w0 = Some r0 \<and> published w0 = Some c0 \<and> Port c0 = port \<and>
         Auth c0 \<noteq> None" by simp
  qed
  have c3: "initializeFromFile w = (Inr r, w') \<longrightarrow>
      configInstance w' = Some r \<and> (\<exists>c. published w' = Some c \<and> Auth c = None)"
    using initializeFromFile_published by blast
  have c4: "userConfigDocument w = Loaded doc \<and> hostNameTest (toString (IOTHUB_CONNECTION_STRING doc)) \<longrightarrow>
      (\<exists>r1 w1 c. initializeFromFile w = (Inr r1, w1) \<and> configInstance w1 = Some r1 \<and>
         published w1 = Some c \<and> Auth c = None)"
    using initializeFromFile_publishes by blast
  have c6: "\<exists>r2 w2 c. initializeFromEnvironment w = (Inr r2, w2) \<and> configInstance w2 = Some r2 \<and>
      published w2 = Some c \<and> Auth c = None"
    by (rule initializeFromEnvironment_publishes)
  have c5: "initializeFromEnvironment w = (Inr r, w') \<longrightarrow>
      configInstance w' = Some r \<and> (\<exists>c. published w' = Some c \<and> Auth c = None)"
    using c6 by auto
  show ?thesis by (intro conjI c1 c2 c3 c4 c5 c6)
qed

theorem published_auth_and_port_witness:
  "(\<exists>w'. initializeFromConfigService ''http://config'' (Some ''80'')
       (exampleWorld\<lparr>net := serviceReadyThirdTime\<rparr>) = Some (Inr 0, w') \<and>
     configInstance w' = Some 0 \<and> published w' = Some exampleConfig \<and>
     Port exampleConfig = Some ''80'' \<and>
     map_option loginUrl (Auth exampleConfig) = Some ''https://login.example.net'' \<and>
     map_option mongoUri (Auth exampleConfig) = Some ''mongodb://db.example.net'' \<and>
     map_option sessionSecret (Auth exampleConfig) = Some ''s3cret'') \<and>
   fst (initializeFromFile (exampleWorld\<lparr>userConfigDocument := Loaded exampleDocument\<rparr>)) = Inr 0 \<and>
   map_option Auth (published (snd (initializeFromFile
       (exampleWorld\<lparr>userConfigDocument := Loaded exampleDocument\<rparr>)))) = Some None \<and>
   fst (initializeFromEnvironment exampleWorld) = Inr 0 \<and>
   map_option Auth (published (snd (initializeFromEnvironment exampleWorld))) = Some None"
proof -
  let ?u = "''http://config''" and ?p = "Some ''80''"
  let ?w = "exampleWorld\<lparr>net := serviceReadyThirdTime\<rparr>"
  let ?wf = "exampleWorld\<lparr>userConfigDocument := Loaded exampleDocument\<rparr>"
  obtain w1 where a: "attempt ?u ?p (attemptStart 2 ?u ?p ?w) = (Inr exampleConfig, w1)"
    using third_time_attempts(3)
    by (cases "attempt ?u ?p (attemptStart 2 ?u ?p ?w)") (simp add: numeral_2_eq_2)
  have f: "\<forall>j<2. isl (fst (attempt ?u ?p (attemptStart j ?u ?p ?w)))"
    using third_time_attempts(1,2) by (simp add: less_Suc_eq numeral_2_eq_2)
  have k: "(2::nat) < 60" by simp
  note h = conjI [OF k conjI [OF f a]]
  from published_auth_and_port [where k = 2 and configUrl = ?u and port = ?p and w = ?w
      and ?c0.0 = exampleConfig and ?w1.0 = w1, THEN conjunct2, THEN conjunct1, THEN mp, OF h]
  obtain r0 w0 where r: "initializeFromConfigService ?u ?p ?w = Some (Inr r0, w0)"
    "configInstance w0 = Some r0" "published w0 = Some exampleConfig"
    by (elim exE conjE) (rule that, assumption+)
  from run_third_time obtain w' where "initializeFromConfigService ?u ?p ?w = Some (Inr 0, w')"
    by (elim exE conjE) (rule that, assumption+)
  with r(1) have r0: "r0 = 0" by simp
  have d: "\<exists>w'. initializeFromConfigService ?u ?p ?w = Some (Inr 0, w') \<and>
     configInstance w' = Some 0 \<and> published w' = Some exampleConfig \<and>
     Port exampleConfig = Some ''80'' \<and>
     map_option loginUrl (Auth exampleConfig) = Some ''https://login.example.net'' \<and>
     map_option mongoUri (Auth exampleConfig) = Some ''mongodb://db.example.net'' \<and>
     map_option sessionSecret (Auth exampleConfig) = Some ''s3cret''"
    using r r0 by (intro exI [of _ w0]) (simp add: exampleConfig_def)
  have v: "hostNameTest (toString (IOTHUB_CONNECTION_STRING exampleDocument))"
    by (rule exampleDocument_valid)
  have d1: "userConfigDocument ?wf = Loaded exampleDocument" by simp
  from published_auth_and_port [where w = ?wf and doc = exampleDocument, THEN conjunct2, THEN conjunct2,
      THEN conjunct2, THEN conjunct1, THEN mp, OF conjI [OF d1 v]]
  obtain r1 w1' c where fl: "initializeFromFile ?wf = (Inr r1, w1')"
    "published w1' = Some c" "Auth c = None"
    by (elim exE conjE) (rule that, assumption+)
  have "fst (initializeFromFile ?wf) = Inr (length (heap ?wf))"
    using initializeFromFile_Loaded [OF d1 v] by (simp add: publish_simps)
  then have f1: "fst (initializeFromFile ?wf) = Inr 0" by (simp add: exampleWorld_def)
  have f2: "map_option Auth (published (snd (initializeFromFile ?wf))) = Some None"
    using fl by simp
  from published_auth_and_port [where w = exampleWorld, THEN conjunct2, THEN conjunct2,
      THEN conjunct2, THEN conjunct2, THEN conjunct2]
  obtain r2 w2 c2 where en: "initializeFromEnvironment exampleWorld = (Inr r2, w2)"
    "published w2 = Some c2" "Auth c2 = None"
    by (elim exE conjE) (rule that, assumption+)
  have e1: "fst (initializeFromEnvironment exampleWorld) = Inr 0"
    by (simp add: initializeFromEnvironment_def publish_simps exampleWorld_def)
  have e2: "map_option Auth (published (snd (initializeFromEnvironment exampleWorld))) = Some None"
    using en by simp
  show ?thesis by (intro conjI d f1 f2 e1 e2)
qed

section \<open>The connection string of the file\<close>

text \<open>
  C5: for a loaded document, \<open>initializeFromFile\<close> fails with InvalidConnectionString
  exactly when the connection string (the text \<^verbatim>\<open>undefined\<close> when the field is absent)
  has no \<^verbatim>\<open>HostName=\<close>, in any casing, at its start or right after a semicolon, and
  succeeds otherwise; \<^verbatim>\<open>hostname=abc\<close> passes and \<^verbatim>\<open>Foo=bar\<close> fails.
\<close>

theorem invalid_connection_string_iff:
  "(userConfigDocument w = Loaded d \<longrightarrow>
      (fst (initializeFromFile w) = Inl (InvalidConnectionString (userConfigFile w))) =
      (\<not> hostNamePatternSpec (toString (IOTHUB_CONNECTION_STRING d)))) \<and>
   (userConfigDocument w = Loaded d \<and> hostNamePatternSpec (toString (IOTHUB_CONNECTION_STRING d)) \<longrightarrow>
      (\<exists>r. fst (initializeFromFile w) = Inr r)) \<and>
   (userConfigDocument w = Loaded d \<and> IOTHUB_CONNECTION_STRING d = Some ''hostname=abc'' \<longrightarrow>
      (\<exists>r. fst (initializeFromFile w) = Inr r)) \<and>
   (userConfigDocument w = Loaded d \<and> IOTHUB_CONNECTION_STRING d = Some ''Foo=bar'' \<longrightarrow>
      fst (initializeFromFile w) = Inl (InvalidConnectionString (userConfigFile w)))"
proof (intro conjI impI)
  assume "userConfigDocument w = Loaded d"
  then show "(fst (initializeFromFile w) = Inl (InvalidConnectionString (userConfigFile w))) =
      (\<not> hostNamePatternSpec (toString (IOTHUB_CONNECTION_STRING d)))"
    by (simp add: initializeFromFile_def publish_simps hostNameTest_iff)
next
  assume "userConfigDocument w = Loaded d \<and> hostNamePatternSpec (toString (IOTHUB_CONNECTION_STRING d))"
  then show "\<exists>r. fst (initializeFromFile w) = Inr r"
    by (simp add: initializeFromFile_def publish_simps hostNameTest_iff)
next
  have a: "hostNameTest ''hostname=abc''" by code_simp
  assume "userConfigDocument w = Loaded d \<and> IOTHUB_CONNECTION_STRING d = Some ''hostname=abc''"
  then show "\<exists>r. fst (initializeFromFile w) = Inr r"
    using a by (simp add: initializeFromFile_def publish_simps toString_def)
next
  have b: "\<not> hostNameTest ''Foo=bar''" by code_simp
  assume "userConfigDocument w = Loaded d \<and> IOTHUB_CONNECTION_STRING d = Some ''Foo=bar''"
  then show "fst (initializeFromFile w) = Inl (InvalidConnectionString (userConfigFile w))"
    using b by (simp add: initializeFromFile_def toString_def)
qed

theorem invalid_connection_string_iff_witness:
  "fst (initializeFromFile (exampleWorld\<lparr>userConfigDocument :=
          Loaded (exampleDocument\<lparr>IOTHUB_CONNECTION_STRING := Some ''hostname=abc''\<rparr>)\<rparr>)) = Inr 0 \<and>
   fst (initializeFromFile (exampleWorld\<lparr>userConfigDocument :=
          Loaded (exampleDocument\<lparr>IOTHUB_CONNECTION_STRING := Some ''Foo=bar''\<rparr>)\<rparr>))
     = Inl (InvalidConnectionString ''/app/user-config.json'') \<and>
   \<not> hostNamePatternSpec ''Foo=bar'' \<and>
   hostNamePatternSpec ''DeviceId=d;HOSTNAME=hub''"
proof -
  let ?a = "exampleDocument\<lparr>IOTHUB_CONNECTION_STRING := Some ''hostname=abc''\<rparr>"
  let ?b = "exampleDocument\<lparr>IOTHUB_CONNECTION_STRING := Some ''Foo=bar''\<rparr>"
  let ?c = "exampleDocument\<lparr>IOTHUB_CONNECTION_STRING := Some ''DeviceId=d;HOSTNAME=hub''\<rparr>"
  let ?wa = "exampleWorld\<lparr>userConfigDocument := Loaded ?a\<rparr>"
  let ?wb = "exampleWorld\<lparr>userConfigDocument := Loaded ?b\<rparr>"
  let ?wc = "exampleWorld\<lparr>userConfigDocument := Loaded ?c\<rparr>"
  have t: "hostNameTest ''DeviceId=d;HOSTNAME=hub''" by code_simp
  have fc: "fst (initializeFromFile ?wc) \<noteq> Inl (InvalidConnectionString (userConfigFile ?wc))"
    using t by (simp add: initializeFromFile_def toString_def publish_def Let_def)
  from invalid_connection_string_iff [of ?wa ?a] obtain r where ra: "fst (initializeFromFile ?wa) = Inr r" by auto
  have "fst (initializeFromFile ?wa) = Inr 0 \<or> isl (fst (initializeFromFile ?wa))"
    by (simp add: initializeFromFile_def publish_def Let_def exampleWorld_def)
  with ra have a: "fst (initializeFromFile ?wa) = Inr 0" by auto
  from invalid_connection_string_iff [of ?wb ?b]
  have b0: "fst (initializeFromFile ?wb) = Inl (InvalidConnectionString (userConfigFile ?wb))"
    by simp
  with invalid_connection_string_iff [of ?wb ?b] have nb: "\<not> hostNamePatternSpec ''Foo=bar''"
    by (simp add: toString_def)
  from b0 have b: "fst (initializeFromFile ?wb) = Inl (InvalidConnectionString ''/app/user-config.json'')"
    by (simp add: exampleWorld_def)
  from invalid_connection_string_iff [of ?wc ?c] fc have c: "hostNamePatternSpec ''DeviceId=d;HOSTNAME=hub''"
    by (simp add: toString_def)
  show ?thesis by (intro conjI a b nb c)
qed

section \<open>Resolution from the file\<close>

text \<open>
  C6, as the specification states it, fails: a document that omits none of the three
  fields but supplies the empty string for CONSOLE_REPORTING gets "both", not the
  supplied value.
\<close>

theorem empty_console_reporting_is_defaulted:
  "CONSOLE_REPORTING (exampleDocument\<lparr>CONSOLE_REPORTING := Some []\<rparr>) = Some [] \<and>
   hostNameTest (toString (IOTHUB_CONNECTION_STRING (exampleDocument\<lparr>CONSOLE_REPORTING := Some []\<rparr>))) \<and>
   fst (initializeFromFile
         (exampleWorld\<lparr>userConfigDocument := Loaded (exampleDocument\<lparr>CONSOLE_REPORTING := Some []\<rparr>)\<rparr>)) = Inr 0 \<and>
   map_option ConsoleReporting (published (snd (initializeFromFile
         (exampleWorld\<lparr>userConfigDocument := Loaded (exampleDocument\<lparr>CONSOLE_REPORTING := Some []\<rparr>)\<rparr>))))
     = Some ''both''"
proof -
  let ?d = "exampleDocument\<lparr>CONSOLE_REPORTING := Some []\<rparr>"
  let ?w = "exampleWorld\<lparr>userConfigDocument := Loaded ?d\<rparr>"
  have v: "hostNameTest (toString (IOTHUB_CONNECTION_STRING ?d))"
    using exampleDocument_valid by simp
  have "userConfigDocument ?w = Loaded ?d" by simp
  from initializeFromFile_Loaded [OF this v] show ?thesis
    using v by (simp add: publish_simps orElse_simps exampleWorld_def)
qed

text \<open>
  C6, amended: for every loaded document with a valid connection string,
  \<open>initializeFromFile\<close> publishes a Config with ConsoleReporting "both", LogLevel
  "trace" and Port "3003" where the document omits the field, and with the supplied
  value where the document supplies a non-empty one.
\<close>

theorem initializeFromFile_defaults:
  assumes "userConfigDocument w = Loaded d"
    and "hostNameTest (toString (IOTHUB_CONNECTION_STRING d))"
  shows "\<exists>r w' c. initializeFromFile w = (Inr r, w') \<and> configInstance w' = Some r \<and>
           published w' = Some c \<and>
           (CONSOLE_REPORTING d = None \<longrightarrow> ConsoleReporting c = ''both'') \<and>
           (LOG_LEVEL d = None \<longrightarrow> LogLevel c = ''trace'') \<and>
           (PORT d = None \<longrightarrow> Port c = Some ''3003'') \<and>
           (\<forall>s. CONSOLE_REPORTING d = Some s \<and> s \<noteq> [] \<longrightarrow> ConsoleReporting c = s) \<and>
           (\<forall>s. LOG_LEVEL d = Some s \<and> s \<noteq> [] \<longrightarrow> LogLevel c = s) \<and>
           (\<forall>s. PORT d = Some s \<and> s \<noteq> [] \<longrightarrow> Port c = Some s)"
proof -
  let ?c = "\<lparr>IotHubConnectionString = IOTHUB_CONNECTION_STRING d,
              ConsoleReporting = orElse (CONSOLE_REPORTING d) ''both'',
              LogLevel = orElse (LOG_LEVEL d) ''trace'',
              Port = Some (orElse (PORT d) ''3003''),
              Auth = None\<rparr>"
  have "initializeFromFile w = (Inr (length (heap w)), snd (publish ?c w))"
    using initializeFromFile_Loaded [OF assms] publish_simps(1) [of ?c w]
    by (simp add: prod_eq_iff)
  then show ?thesis
    by (intro exI [of _ "length (heap w)"] exI [of _ "snd (publish ?c w)"] exI [of _ ?c])
       (simp add: publish_simps orElse_simps)
qed

theorem initializeFromFile_defaults_witness:
  "map_option ConsoleReporting (published (snd (initializeFromFile
       (exampleWorld\<lparr>userConfigDocument := Loaded exampleDocument\<rparr>)))) = Some ''server'' \<and>
   map_option LogLevel (published (snd (initializeFromFile
       (exampleWorld\<lparr>userConfigDocument := Loaded exampleDocument\<rparr>)))) = Some ''info'' \<and>
   map_option Port (published (snd (initializeFromFile
       (exampleWorld\<lparr>userConfigDocument := Loaded exampleDocument\<rparr>)))) = Some (Some ''8080'') \<and>
   map_option ConsoleReporting (published (snd (initializeFromFile
       (exampleWorld\<lparr>userConfigDocument := Loaded (exampleDocument
          \<lparr>CONSOLE_REPORTING := None, LOG_LEVEL := None, PORT := None\<rparr>)\<rparr>)))) = Some ''both'' \<and>
   map_option LogLevel (published (snd (initializeFromFile
       (exampleWorld\<lparr>userConfigDocument := Loaded (exampleDocument
          \<lparr>CONSOLE_REPORTING := None, LOG_LEVEL := None, PORT := None\<rparr>)\<rparr>)))) = Some ''trace'' \<and>
   map_option Port (published (snd (initializeFromFile
       (exampleWorld\<lparr>userConfigDocument := Loaded (exampleDocument
          \<lparr>CONSOLE_REPORTING := None, LOG_LEVEL := None, PORT := None\<rparr>)\<rparr>)))) = Some (Some ''3003'')"
proof -
  let ?d = "exampleDocument\<lparr>CONSOLE_REPORTING := None, LOG_LEVEL := None, PORT := None\<rparr>"
  have v1: "hostNameTest (toString (IOTHUB_CONNECTION_STRING exampleDocument))"
    by (rule exampleDocument_valid)
  have v2: "hostNameTest (toString (IOTHUB_CONNECTION_STRING ?d))"
    using exampleDocument_valid by simp
  have d1: "userConfigDocument (exampleWorld\<lparr>userConfigDocument := Loaded exampleDocument\<rparr>)
              = Loaded exampleDocument" by simp
  have d2: "userConfigDocument (exampleWorld\<lparr>userConfigDocument := Loaded ?d\<rparr>) = Loaded ?d" by simp
  from initializeFromFile_defaults [OF d1 v1] initializeFromFile_defaults [OF d2 v2] show ?thesis
    by (auto simp: exampleDocument_def)
qed

section \<open>Resolution from the environment\<close>

text \<open>
  C7, as the specification states it, fails: with \<^verbatim>\<open>PORT=''\<close> the published port is
  "3003", not the supplied value.
\<close>

theorem empty_port_is_not_kept_verbatim:
  "envPORT (exampleWorld\<lparr>envPORT := Some []\<rparr>) = Some [] \<and>
   map_option Port (published (snd (initializeFromEnvironment (exampleWorld\<lparr>envPORT := Some []\<rparr>))))
     = Some (Some ''3003'')"
  by (simp add: initializeFromEnvironment_def publish_simps orElse_simps)

text \<open>
  C7, amended: \<open>initializeFromEnvironment\<close> never fails and never looks at the
  connection string, which it stores as it is, unset included; ConsoleReporting is
  "both" and LogLevel is "trace"; Port is the port of the environment when that is a
  non-empty string, and "3003" when it is unset or empty; Auth is absent.
\<close>

theorem initializeFromEnvironment_config:
  "\<exists>r w'. initializeFromEnvironment w = (Inr r, w') \<and> configInstance w' = Some r \<and>
     published w' =
       Some \<lparr>IotHubConnectionString = envIOTHUB_CONNECTION_STRING w,
             ConsoleReporting = ''both'',
             LogLevel = ''trace'',
             Port = Some (case envPORT w of None \<Rightarrow> ''3003''
                          | Some p \<Rightarrow> if p = [] then ''3003'' else p),
             Auth = None\<rparr>"
  by (cases "envPORT w")
     (simp_all add: initializeFromEnvironment_def publish_def published_def orElse_simps Let_def)

section \<open>Reading the singleton\<close>

text \<open>
  C8: \<open>get\<close> fails with NotInitialized while the static field is unset, which it is
  until a resolution succeeds (a failed \<open>initialize\<close> leaves it unset); \<open>get\<close> never
  changes the world; and after any resolution that succeeded with a reference, every
  later call of \<open>get\<close>, however many, returns that reference.
\<close>

theorem get_returns_singleton:
  "(configInstance w = None \<longrightarrow> get w = (Inl NotInitialized, w)) \<and>
   snd (get w) = w \<and>
   (initializeFromFile w = (Inr r, w') \<longrightarrow>
      (\<forall>n. get (((\<lambda>x. snd (get x)) ^^ n) w') = (Inr r, w'))) \<and>
   (initializeFromEnvironment w = (Inr r, w') \<longrightarrow>
      (\<forall>n. get (((\<lambda>x. snd (get x)) ^^ n) w') = (Inr r, w'))) \<and>
   (initializeFromConfigService configUrl port w = Some (Inr r, w') \<longrightarrow>
      (\<forall>n. get (((\<lambda>x. snd (get x)) ^^ n) w') = (Inr r, w'))) \<and>
   (initialize w = Some (Inr r, w') \<longrightarrow>
      (\<forall>n. get (((\<lambda>x. snd (get x)) ^^ n) w') = (Inr r, w'))) \<and>
   (configInstance w = None \<and> initialize w = Some (Inl e, w') \<longrightarrow>
      get w' = (Inl NotInitialized, w'))"
proof -
  have g: "configInstance w' = Some r \<Longrightarrow> \<forall>n. get (((\<lambda>x. snd (get x)) ^^ n) w') = (Inr r, w')"
    by (simp only: get_funpow) (simp add: get_initialized)
  have f: "initializeFromFile w = (Inr r, w') \<Longrightarrow> configInstance w' = Some r"
    using initializeFromFile_published by blast
  have v: "initializeFromEnvironment w = (Inr r, w') \<Longrightarrow> configInstance w' = Some r"
    by (auto simp: initializeFromEnvironment_def publish_def Let_def)
  have s: "initializeFromConfigService configUrl port w = Some (Inr r, w') \<Longrightarrow> configInstance w' = Some r"
    using initializeFromConfigService_success [of configUrl port w r w'] publish_published by blast
  have x: "configInstance w = None \<and> initialize w = Some (Inl e, w') \<longrightarrow>
      get w' = (Inl NotInitialized, w')"
  proof
    assume a: "configInstance w = None \<and> initialize w = Some (Inl e, w')"
    have k: "initializeFromFile w = (Inl e, w') \<Longrightarrow> configInstance w' = configInstance w"
      using initializeFromFile_cases(1) [of w e w'] by simp
    have k2: "initializeFromConfigService u p w = Some (Inl e, w') \<Longrightarrow> configInstance w' = configInstance w" for u p
      using initializeFromConfigService_failure [of u p w e w'] by simp
    have k3: "initializeFromEnvironment w \<noteq> (Inl e, w')"
      by (simp add: initializeFromEnvironment_def publish_def Let_def)
    from initialize_cases [of w] a k k2 k3 have "configInstance w' = None"
      by (metis option.inject)
    then show "get w' = (Inl NotInitialized, w')" by (rule get_uninitialized)
  qed
  from g f v s x initialize_success [of w r w'] get_uninitialized [of w] show ?thesis
    by (simp only: get_world) blast
qed

theorem get_returns_singleton_witness:
  "get exampleWorld = (Inl NotInitialized, exampleWorld) \<and>
   get publishedWorld = (Inr 0, publishedWorld) \<and>
   get (snd (get (snd (get publishedWorld)))) = (Inr 0, publishedWorld) \<and>
   (\<exists>w'. initializeFromConfigService ''http://config'' (Some ''80'')
           (exampleWorld\<lparr>net := serviceReady\<rparr>) = Some (Inr 0, w') \<and>
         get w' = (Inr 0, w') \<and> get (snd (get w')) = (Inr 0, w'))"
proof -
  have a: "get exampleWorld = (Inl NotInitialized, exampleWorld)"
    using get_returns_singleton [of exampleWorld] by (simp add: exampleWorld_def)
  have "initializeFromEnvironment exampleWorld = (Inr 0, publishedWorld)"
    by (simp add: publishedWorld_def prod_eq_iff initializeFromEnvironment_def publish_simps exampleWorld_def)
  with get_returns_singleton [of exampleWorld 0 publishedWorld]
  have b: "\<forall>n. get (((\<lambda>x. snd (get x)) ^^ n) publishedWorld) = (Inr 0, publishedWorld)" by blast
  from b [rule_format, of 0] b [rule_format, of 2]
  have b': "get publishedWorld = (Inr 0, publishedWorld)"
    "get (snd (get (snd (get publishedWorld)))) = (Inr 0, publishedWorld)"
    by (simp_all add: numeral_2_eq_2)
  from run_ready obtain w' where
    r: "initializeFromConfigService ''http://config'' (Some ''80'')
           (exampleWorld\<lparr>net := serviceReady\<rparr>) = Some (Inr 0, w')" by blast
  with get_returns_singleton [of "exampleWorld\<lparr>net := serviceReady\<rparr>" 0 w' "''http://config''" "Some ''80''"]
  have c: "\<forall>n. get (((\<lambda>x. snd (get x)) ^^ n) w') = (Inr 0, w')" by blast
  from c [rule_format, of 0] c [rule_format, of 1]
  have "get w' = (Inr 0, w')" "get (snd (get w')) = (Inr 0, w')" by simp_all
  with a b' r show ?thesis by blast
qed

section \<open>Failed resolutions\<close>

text \<open>
  C9: a resolution that fails, from the file, from the discovery service or through
  \<open>initialize\<close>, leaves the static field and the object it refers to as they were;
  the resolution from the environment never fails. Every resolution returns: the retry
  loop ends in every world.
\<close>

theorem failed_resolution_keeps_singleton:
  "(initializeFromFile w = (Inl e, w') \<longrightarrow>
      configInstance w' = configInstance w \<and> published w' = published w) \<and>
   (initializeFromConfigService configUrl port w = Some (Inl e, w') \<longrightarrow>
      configInstance w' = configInstance w \<and> published w' = published w) \<and>
   (initialize w = Some (Inl e, w') \<longrightarrow>
      configInstance w' = configInstance w \<and> published w' = published w) \<and>
   fst (initializeFromEnvironment w) \<noteq> Inl e \<and>
   (\<exists>res. initializeFromConfigService configUrl port w = Some res) \<and>
   (\<exists>res. initialize w = Some res)"
proof -
  have f: "initializeFromFile w = (Inl e, w') \<longrightarrow>
      configInstance w' = configInstance w \<and> published w' = published w"
    using initializeFromFile_cases(1) [of w e w'] by auto
  have s: "initializeFromConfigService u p w = Some (Inl e, w') \<longrightarrow>
      configInstance w' = configInstance w \<and> published w' = published w" for u p
    using initializeFromConfigService_failure [of u p w e w'] published_unchanged [of w' w] by auto
  have v: "fst (initializeFromEnvironment w) \<noteq> Inl e"
    by (simp add: initializeFromEnvironment_def publish_simps)
  have i: "initialize w = Some (Inl e, w') \<longrightarrow>
      configInstance w' = configInstance w \<and> published w' = published w"
    using initialize_cases [of w] f s v by (metis fst_conv option.inject)
  have t: "\<exists>res. initializeFromConfigService configUrl port w = Some res"
    by (rule initializeFromConfigService_returns)
  have t': "\<exists>res. initialize w = Some res"
    using initialize_cases [of w] initializeFromConfigService_returns [of _ "envPORT w" w]
    by metis
  show ?thesis by (intro conjI f s [of configUrl port] i v t t')
qed

theorem failed_resolution_keeps_singleton_witness:
  "configInstance publishedWorld = Some 0 \<and>
   fst (initializeFromFile publishedWorld) = Inl (MissingConfigFile ''/app/user-config.json'') \<and>
   configInstance (snd (initializeFromFile publishedWorld)) = Some 0 \<and>
   (\<exists>e w'. initializeFromConfigService ''http://config'' None publishedWorld = Some (Inl e, w') \<and>
      configInstance w' = Some 0 \<and> published w' = published publishedWorld)"
proof -
  let ?u = "''http://config''"
  have i0: "configInstance publishedWorld = Some 0"
    by (simp add: publishedWorld_def initializeFromEnvironment_def publish_simps exampleWorld_def)
  have doc: "userConfigDocument publishedWorld = Absent"
    and path: "userConfigFile publishedWorld = ''/app/user-config.json''"
    and nt: "net publishedWorld = (\<lambda>t uri. Rejected ''ECONNREFUSED'')"
    by (simp_all add: publishedWorld_def initializeFromEnvironment_def publish_def Let_def exampleWorld_def)
  have f: "initializeFromFile publishedWorld = (Inl (MissingConfigFile ''/app/user-config.json''), publishedWorld)"
    by (simp add: initializeFromFile_def doc path)
  have n: "net (attemptStart k ?u None publishedWorld) = (\<lambda>t uri. Rejected ''ECONNREFUSED'')" for k
    using nt by simp
  have "\<forall>k\<le>59. isl (fst (attempt ?u None (attemptStart k ?u None publishedWorld)))"
    using attempt_rejected [OF n] by simp
  from retryLoop_all_fail [OF this] obtain e w' where
    r: "initializeFromConfigService ?u None publishedWorld = Some (Inl e, w')"
    by (simp add: initializeFromConfigService_def)
  from failed_resolution_keeps_singleton [of publishedWorld "MissingConfigFile ''/app/user-config.json''" publishedWorld]
    failed_resolution_keeps_singleton [of publishedWorld e w' ?u None] f r i0
  show ?thesis by auto
qed

section \<open>Defaults by falsiness\<close>

text \<open>
  C10: a loaded document with a valid connection string that supplies the empty
  string for CONSOLE_REPORTING, LOG_LEVEL or PORT gets "both", "trace" and "3003":
  each field is defaulted when it is falsy. \<open>initializeFromEnvironment\<close> with an unset
  or empty PORT publishes the port "3003".
\<close>

theorem defaulting_is_by_falsiness:
  "(userConfigDocument w = Loaded d \<and> hostNameTest (toString (IOTHUB_CONNECTION_STRING d)) \<longrightarrow>
      (\<exists>c. published (snd (initializeFromFile w)) = Some c \<and>
         (CONSOLE_REPORTING d = Some [] \<longrightarrow> ConsoleReporting c = ''both'') \<and>
         (LOG_LEVEL d = Some [] \<longrightarrow> LogLevel c = ''trace'') \<and>
         (PORT d = Some [] \<longrightarrow> Port c = Some ''3003'') \<and>
         ConsoleReporting c = (if falsy (CONSOLE_REPORTING d) then ''both'' else the (CONSOLE_REPORTING d)) \<and>
         LogLevel c = (if falsy (LOG_LEVEL d) then ''trace'' else the (LOG_LEVEL d)) \<and>
         Port c = Some (if falsy (PORT d) then ''3003'' else the (PORT d)))) \<and>
   (envPORT w = None \<or> envPORT w = Some [] \<longrightarrow>
      map_option Port (published (snd (initializeFromEnvironment w))) = Some (Some ''3003''))"
proof (intro conjI impI)
  assume "userConfigDocument w = Loaded d \<and> hostNameTest (toString (IOTHUB_CONNECTION_STRING d))"
  then have "initializeFromFile w =
     publish \<lparr>IotHubConnectionString = IOTHUB_CONNECTION_STRING d,
              ConsoleReporting = orElse (CONSOLE_REPORTING d) ''both'',
              LogLevel = orElse (LOG_LEVEL d) ''trace'',
              Port = Some (orElse (PORT d) ''3003''),
              Auth = None\<rparr> w"
    by (simp add: initializeFromFile_Loaded)
  then show "\<exists>c. published (snd (initializeFromFile w)) = Some c \<and>
         (CONSOLE_REPORTING d = Some [] \<longrightarrow> ConsoleReporting c = ''both'') \<and>
         (LOG_LEVEL d = Some [] \<longrightarrow> LogLevel c = ''trace'') \<and>
         (PORT d = Some [] \<longrightarrow> Port c = Some ''3003'') \<and>
         ConsoleReporting c = (if falsy (CONSOLE_REPORTING d) then ''both'' else the (CONSOLE_REPORTING d)) \<and>
         LogLevel c = (if falsy (LOG_LEVEL d) then ''trace'' else the (LOG_LEVEL d)) \<and>
         Port c = Some (if falsy (PORT d) then ''3003'' else the (PORT d))"
    by (simp add: publish_simps orElse_def)
next
  assume "envPORT w = None \<or> envPORT w = Some []"
  then show "map_option Port (published (snd (initializeFromEnvironment w))) = Some (Some ''3003'')"
    by (auto simp: initializeFromEnvironment_def publish_simps orElse_simps)
qed

theorem defaulting_is_by_falsiness_witness:
  "map_option ConsoleReporting (published (snd (initializeFromFile (exampleWorld
      \<lparr>userConfigDocument := Loaded (exampleDocument
          \<lparr>CONSOLE_REPORTING := Some [], LOG_LEVEL := Some [], PORT := Some []\<rparr>)\<rparr>)))) = Some ''both'' \<and>
   map_option LogLevel (published (snd (initializeFromFile (exampleWorld
      \<lparr>userConfigDocument := Loaded (exampleDocument
          \<lparr>CONSOLE_REPORTING := Some [], LOG_LEVEL := Some [], PORT := Some []\<rparr>)\<rparr>)))) = Some ''trace'' \<and>
   map_option Port (published (snd (initializeFromFile (exampleWorld
      \<lparr>userConfigDocument := Loaded (exampleDocument
          \<lparr>CONSOLE_REPORTING := Some [], LOG_LEVEL := Some [], PORT := Some []\<rparr>)\<rparr>)))) = Some (Some ''3003'') \<and>
   map_option Port (published (snd (initializeFromEnvironment exampleWorld))) = Some (Some ''3003'') \<and>
   map_option Port (published (snd (initializeFromEnvironment (exampleWorld\<lparr>envPORT := Some []\<rparr>))))
     = Some (Some ''3003'')"
proof -
  let ?d = "exampleDocument\<lparr>CONSOLE_REPORTING := Some [], LOG_LEVEL := Some [], PORT := Some []\<rparr>"
  let ?w = "exampleWorld\<lparr>userConfigDocument := Loaded ?d\<rparr>"
  have v: "hostNameTest (toString (IOTHUB_CONNECTION_STRING ?d))"
    using exampleDocument_valid by simp
  have e: "envPORT exampleWorld = None" by (simp add: exampleWorld_def)
  from defaulting_is_by_falsiness [of ?w ?d] v defaulting_is_by_falsiness [of exampleWorld] e
    defaulting_is_by_falsiness [of "exampleWorld\<lparr>envPORT := Some []\<rparr>"]
  show ?thesis by auto
qed

end
